theory Spec2Isabelle
  imports Complex_Main "HOL-Library.Word" "HOL-Library.AList"
begin

section \<open>JavaScript strings and collections\<close>

text \<open>
  A JavaScript string is the list of its UTF-16 code units, which is what \<open>.length\<close> counts
  and what \<open>===\<close> and object keys compare. \<open>ascii\<close> writes a literal whose characters are
  all ASCII.
\<close>

type_synonym jsstring = "16 word list"

definition ascii :: "string \<Rightarrow> jsstring" where
  "ascii s = map of_char s"

text \<open>
  A JavaScript \<open>Set\<close> (and a set held by the key-value store) is a duplicate-free list in
  insertion order: \<open>add\<close> appends a new element and leaves a present one where it is,
  \<open>delete\<close> removes it. Iteration and \<open>sMembers\<close> read the list.
\<close>

definition set_add :: "'a list \<Rightarrow> 'a \<Rightarrow> 'a list" where
  "set_add xs x = (if x \<in> set xs then xs else xs @ [x])"

definition set_delete :: "'a list \<Rightarrow> 'a \<Rightarrow> 'a list" where
  "set_delete xs x = removeAll x xs"

section \<open>The shared directory (core/node-manager.js)\<close>

text \<open>
  The key-value store as the node manager uses it. Each family of keys
  (\<open>websocket:client:<id>:node\<close>, \<open>websocket:node:<id>:clients\<close>,
  \<open>websocket:client:<id>:metadata\<close>, \<open>websocket:client:<id>:channels\<close>,
  \<open>websocket:channel:<ch>:nodes\<close>, \<open>websocket:node:<id>:channels\<close>) is one field, a
  function of the identifier in the key; the families have different prefixes or suffixes, so
  no two of them share a key. A set with no member and a hash with no field are the absent
  key, as in the store. \<open>failing\<close> is the state of the connection: when it is set, every
  command issued on it rejects.
\<close>

record kvps =
  failing :: bool
  clientNode :: "jsstring \<Rightarrow> jsstring option"
  nodeClients :: "jsstring \<Rightarrow> jsstring list"
  clientMetadata :: "jsstring \<Rightarrow> (jsstring \<times> jsstring) list"
  clientChannels :: "jsstring \<Rightarrow> jsstring list"
  channelNodes :: "jsstring \<Rightarrow> jsstring list"
  nodeChannels :: "jsstring \<Rightarrow> jsstring list"

datatype redis_error = ClientClosedError

text \<open>The reply of a command (or of a block of commands awaited in sequence) whose
  result on a working connection is \<open>v\<close>.\<close>

definition command :: "kvps \<Rightarrow> 'a \<Rightarrow> redis_error + 'a" where
  "command r v = (if failing r then Inl ClientClosedError else Inr v)"

definition sAdd :: "jsstring list \<Rightarrow> jsstring \<Rightarrow> jsstring list" where
  "sAdd members x = set_add members x"

definition sRem :: "jsstring list \<Rightarrow> jsstring \<Rightarrow> jsstring list" where
  "sRem members x = set_delete members x"

definition hSet :: "(jsstring \<times> jsstring) list \<Rightarrow> (jsstring \<times> jsstring) list
    \<Rightarrow> (jsstring \<times> jsstring) list" where
  "hSet hash kvs = fold (\<lambda>(k, v) h. AList.update k v h) kvs hash"

text \<open>
  The node manager: its identity and its store client (\<open>None\<close> is \<open>null\<close>, standalone
  mode). Every method returns at once without a client, and wraps its commands in
  \<open>try { ... } catch (error) { log }\<close>. The functions of this section are the methods run
  from call to return with no other operation of the process in between; the section on
  operations in flight takes them one command at a time.
\<close>

record node_manager =
  nodeId :: jsstring
  redis :: "kvps option"

definition registerClient :: "node_manager \<Rightarrow> jsstring \<Rightarrow> (jsstring \<times> jsstring) list
    \<Rightarrow> node_manager" where
  "registerClient nm clientId metadata =
     (case redis nm of
        None \<Rightarrow> nm
      | Some r \<Rightarrow>
          (case command r
             (r\<lparr>clientNode := (clientNode r)(clientId \<mapsto> nodeId nm),
                nodeClients := (nodeClients r)
                   (nodeId nm := sAdd (nodeClients r (nodeId nm)) clientId),
                clientMetadata :=
                   (if length (map fst metadata) > 0
                    then (clientMetadata r)(clientId := hSet (clientMetadata r clientId) metadata)
                    else clientMetadata r)\<rparr>) of
             Inl error \<Rightarrow> nm
           | Inr r' \<Rightarrow> nm\<lparr>redis := Some r'\<rparr>))"

definition unregisterClient :: "node_manager \<Rightarrow> jsstring \<Rightarrow> node_manager" where
  "unregisterClient nm clientId =
     (case redis nm of
        None \<Rightarrow> nm
      | Some r \<Rightarrow>
          (case command r
             (r\<lparr>clientNode := (clientNode r)(clientId := None),
                nodeClients := (nodeClients r)
                   (nodeId nm := sRem (nodeClients r (nodeId nm)) clientId),
                clientMetadata := (clientMetadata r)(clientId := [])\<rparr>) of
             Inl error \<Rightarrow> nm
           | Inr r' \<Rightarrow> nm\<lparr>redis := Some r'\<rparr>))"

definition subscribeClientToChannel :: "node_manager \<Rightarrow> jsstring \<Rightarrow> jsstring
    \<Rightarrow> node_manager" where
  "subscribeClientToChannel nm clientId channel =
     (case redis nm of
        None \<Rightarrow> nm
      | Some r \<Rightarrow>
          (case command r
             (r\<lparr>channelNodes := (channelNodes r)
                   (channel := sAdd (channelNodes r channel) (nodeId nm)),
                nodeChannels := (nodeChannels r)
                   (nodeId nm := sAdd (nodeChannels r (nodeId nm)) channel),
                clientChannels := (clientChannels r)
                   (clientId := sAdd (clientChannels r clientId) channel)\<rparr>) of
             Inl error \<Rightarrow> nm
           | Inr r' \<Rightarrow> nm\<lparr>redis := Some r'\<rparr>))"

text \<open>The loop over the node's clients that looks for one still subscribed to the
  channel, leaving at the first.\<close>

definition hasChannelClients :: "kvps \<Rightarrow> jsstring \<Rightarrow> jsstring \<Rightarrow> bool" where
  "hasChannelClients r node channel =
     list_ex (\<lambda>client. channel \<in> set (clientChannels r client)) (nodeClients r node)"

definition unsubscribeClientFromChannel :: "node_manager \<Rightarrow> jsstring \<Rightarrow> jsstring
    \<Rightarrow> node_manager" where
  "unsubscribeClientFromChannel nm clientId channel =
     (case redis nm of
        None \<Rightarrow> nm
      | Some r \<Rightarrow>
          (let r1 = r\<lparr>clientChannels := (clientChannels r)
                      (clientId := sRem (clientChannels r clientId) channel)\<rparr>;
               r2 = (if \<not> hasChannelClients r1 (nodeId nm) channel
                     then r1\<lparr>channelNodes := (channelNodes r1)
                              (channel := sRem (channelNodes r1 channel) (nodeId nm)),
                            nodeChannels := (nodeChannels r1)
                              (nodeId nm := sRem (nodeChannels r1 (nodeId nm)) channel)\<rparr>
                     else r1)
           in case command r r2 of
                Inl error \<Rightarrow> nm
              | Inr r' \<Rightarrow> nm\<lparr>redis := Some r'\<rparr>))"

definition getNodesForChannel :: "node_manager \<Rightarrow> jsstring \<Rightarrow> jsstring list" where
  "getNodesForChannel nm channel =
     (case redis nm of
        None \<Rightarrow> [nodeId nm]
      | Some r \<Rightarrow>
          (case command r (channelNodes r channel) of
             Inl error \<Rightarrow> [nodeId nm]
           | Inr nodes \<Rightarrow> if length nodes > 0 then nodes else [nodeId nm]))"

text \<open>\<open>nodeId || null\<close>: an empty string read from the store is no node.\<close>

definition getClientNode :: "node_manager \<Rightarrow> jsstring \<Rightarrow> jsstring option" where
  "getClientNode nm clientId =
     (case redis nm of
        None \<Rightarrow> Some (nodeId nm)
      | Some r \<Rightarrow>
          (case command r (clientNode r clientId) of
             Inl error \<Rightarrow> None
           | Inr found \<Rightarrow>
               (case found of
                  None \<Rightarrow> None
                | Some node \<Rightarrow> if node = [] then None else Some node)))"

section \<open>The message router (core/message-router.js)\<close>

text \<open>
  A local client is the entry of the \<open>localClients\<close> map: the socket, of which the router
  reads only \<open>readyState === 1\<close>, the metadata and the set of channels. The subscriber
  connection holds one listener per \<open>subscribe\<close> call; \<open>unsubscribe(channel)\<close> without a
  listener removes every listener of the channel.
\<close>

record local_client =
  ws_open :: bool
  metadata :: "(jsstring \<times> jsstring) list"
  channels :: "jsstring list"

record subscriber =
  sub_failing :: bool
  listeners :: "jsstring list"

text \<open>
  \<open>server.js\<close> hands one client object to the node manager (as \<open>redis\<close>) and to the
  router (as \<open>redisPublisher\<close>); the model keeps that object in the node manager and reads
  \<open>redisPublisher\<close> from there. \<open>localClients\<close> is a \<open>Map\<close>: a list of entries in
  insertion order, \<open>set\<close> on a present key replacing the value in place.
\<close>

record router =
  nodeManager :: node_manager
  redisSubscriber :: "subscriber option"
  localClients :: "(jsstring \<times> local_client) list"
  subscribedChannels :: "jsstring list"

definition redisPublisher :: "router \<Rightarrow> kvps option" where
  "redisPublisher s = redis (nodeManager s)"

datatype message_type =
  DIRECT_MESSAGE | BROADCAST | CHANNEL_MESSAGE | PRESENCE_UPDATE | CURSOR_UPDATE

text \<open>The envelope published between nodes; a field a message type does not carry is
  \<open>None\<close>. The timestamp is the instant, in milliseconds, that the ISO string encodes.\<close>

record 'm envelope =
  env_type :: message_type
  env_channel :: "jsstring option"
  env_clientId :: "jsstring option"
  env_message :: 'm
  env_excludeClientId :: "jsstring option"
  env_fromNode :: jsstring
  env_targetNode :: "jsstring option"
  env_targetNodes :: "jsstring list option"
  env_timestamp :: int

definition routeChannel :: "jsstring \<Rightarrow> jsstring" where
  "routeChannel channel = ascii ''websocket:route:'' @ channel"

definition directChannel :: "jsstring \<Rightarrow> jsstring" where
  "directChannel node = ascii ''websocket:direct:'' @ node"

definition broadcastAll :: jsstring where
  "broadcastAll = ascii ''websocket:broadcast:all''"

text \<open>The constructor, with \<open>setupNodeMessageHandlers\<close>: both subscriptions are made in
  one \<open>try\<close> block.\<close>

definition setupNodeMessageHandlers :: "router \<Rightarrow> router" where
  "setupNodeMessageHandlers s =
     (case redisSubscriber s of
        None \<Rightarrow> s
      | Some sb \<Rightarrow>
          if sub_failing sb then s
          else s\<lparr>redisSubscriber := Some (sb\<lparr>listeners :=
                  listeners sb @ [directChannel (nodeId (nodeManager s)), broadcastAll]\<rparr>)\<rparr>)"

definition MessageRouter :: "node_manager \<Rightarrow> subscriber option \<Rightarrow> router" where
  "MessageRouter nm sb =
     setupNodeMessageHandlers
       \<lparr>nodeManager = nm, redisSubscriber = sb, localClients = [], subscribedChannels = []\<rparr>"

text \<open>
  Writing to a socket. The model has the \<open>readyState\<close> test; a \<open>send\<close> that throws on an
  open socket makes the router call \<open>unregisterLocalClient\<close>, which is an operation of its
  own here. The result of a local broadcast is the list of clients written to, in the
  order of the map; \<open>sentCount\<close> is its length.
\<close>

definition sendToLocalClient :: "router \<Rightarrow> jsstring \<Rightarrow> bool" where
  "sendToLocalClient s clientId =
     (case map_of (localClients s) clientId of
        None \<Rightarrow> False
      | Some client \<Rightarrow> ws_open client)"

definition broadcastToLocalChannel :: "router \<Rightarrow> jsstring \<Rightarrow> jsstring option \<Rightarrow> jsstring list" where
  "broadcastToLocalChannel s channel excludeClientId =
     map fst (filter (\<lambda>(clientId, client).
        Some clientId \<noteq> excludeClientId \<and> channel \<in> set (channels client)
          \<and> sendToLocalClient s clientId) (localClients s))"

definition broadcastToLocalClients :: "router \<Rightarrow> jsstring option \<Rightarrow> jsstring list" where
  "broadcastToLocalClients s excludeClientId =
     map fst (filter (\<lambda>(clientId, client).
        Some clientId \<noteq> excludeClientId \<and> sendToLocalClient s clientId) (localClients s))"

text \<open>What a send did: written to local sockets (to the clients listed), dropped for
  want of a node, one envelope handed to the store on a pub/sub channel, written to local
  sockets after the publication failed, or not sent.\<close>

datatype 'm sent =
    Local "jsstring list"
  | NoNodesFound
  | Published jsstring "'m envelope"
  | FallbackLocal "jsstring list"
  | NotSent

definition sendToChannel :: "router \<Rightarrow> jsstring \<Rightarrow> 'm \<Rightarrow> jsstring option \<Rightarrow> int \<Rightarrow> 'm sent" where
  "sendToChannel s channel message excludeClientId now =
     (case redisPublisher s of
        None \<Rightarrow> Local (broadcastToLocalChannel s channel excludeClientId)
      | Some r \<Rightarrow>
          (let targetNodes = getNodesForChannel (nodeManager s) channel
           in if length targetNodes = 0 then NoNodesFound
              else
                (let routedMessage =
                       \<lparr>env_type = CHANNEL_MESSAGE, env_channel = Some channel,
                        env_clientId = None, env_message = message,
                        env_excludeClientId = excludeClientId,
                        env_fromNode = nodeId (nodeManager s), env_targetNode = None,
                        env_targetNodes = Some targetNodes, env_timestamp = now\<rparr>
                 in case command r (Published (routeChannel channel) routedMessage) of
                      Inl error \<Rightarrow> FallbackLocal (broadcastToLocalChannel s channel excludeClientId)
                    | Inr done \<Rightarrow> done)))"

definition sendToClient :: "router \<Rightarrow> jsstring \<Rightarrow> 'm \<Rightarrow> int \<Rightarrow> 'm sent" where
  "sendToClient s clientId message now =
     (if map_of (localClients s) clientId \<noteq> None
      then (if sendToLocalClient s clientId then Local [clientId] else Local [])
      else
        (case redisPublisher s of
           None \<Rightarrow> NotSent
         | Some r \<Rightarrow>
             (case getClientNode (nodeManager s) clientId of
                None \<Rightarrow> NotSent
              | Some targetNode \<Rightarrow>
                  (case command r
                     (Published (directChannel targetNode)
                        \<lparr>env_type = DIRECT_MESSAGE, env_channel = None,
                         env_clientId = Some clientId, env_message = message,
                         env_excludeClientId = None,
                         env_fromNode = nodeId (nodeManager s), env_targetNode = Some targetNode,
                         env_targetNodes = None, env_timestamp = now\<rparr>) of
                     Inl error \<Rightarrow> NotSent
                   | Inr done \<Rightarrow> done))))"

definition broadcastToAll :: "router \<Rightarrow> 'm \<Rightarrow> jsstring option \<Rightarrow> int \<Rightarrow> 'm sent" where
  "broadcastToAll s message excludeClientId now =
     (case redisPublisher s of
        None \<Rightarrow> Local (broadcastToLocalClients s excludeClientId)
      | Some r \<Rightarrow>
          (case command r
             (Published broadcastAll
                \<lparr>env_type = BROADCAST, env_channel = None, env_clientId = None,
                 env_message = message, env_excludeClientId = excludeClientId,
                 env_fromNode = nodeId (nodeManager s), env_targetNode = None,
                 env_targetNodes = None, env_timestamp = now\<rparr>) of
             Inl error \<Rightarrow> FallbackLocal (broadcastToLocalClients s excludeClientId)
           | Inr done \<Rightarrow> done))"

text \<open>The handler of an envelope arriving on a route channel: it writes to the local
  subscribers only when this node is among the envelope's target nodes.\<close>

definition handleChannelMessage :: "router \<Rightarrow> 'm envelope \<Rightarrow> jsstring list" where
  "handleChannelMessage s data =
     (if env_type data = CHANNEL_MESSAGE
      then (case (env_targetNodes data, env_channel data) of
              (Some targetNodes, Some channel) \<Rightarrow>
                 if nodeId (nodeManager s) \<in> set targetNodes
                 then broadcastToLocalChannel s channel (env_excludeClientId data) else []
            | _ \<Rightarrow> [])
      else [])"

section \<open>The router's operations in flight\<close>

text \<open>
  The router's operations, and the node manager's methods they call, are \<open>async\<close>
  functions: a call runs until it awaits the reply to a command, and resumes when the
  reply arrives. Meanwhile the process takes up whatever comes next: \<open>server.js\<close> starts
  the handler of every frame and of every close event without waiting for the handlers
  already running, and \<open>registerLocalClient\<close> starts \<open>registerClient\<close> without awaiting
  it. So operations on the same maps, directory and subscriber connection overlap.

  The process holds two connections, the store client (the node manager's \<open>redis\<close>) and
  the subscriber. A connection carries its commands in the order they were issued and
  answers them in that order; a command takes effect, and a read takes its value, when it
  is issued, since nothing issued later overtakes it. A part of an operation runs from a
  call or a reply to the next command that is accepted; the operation then waits, and is
  kept as the command it awaits the reply to, with the values it will need:

  \<^item> \<open>registerClient\<close>: the \<open>set\<close> of line 146, the \<open>sAdd\<close> of line 149, the \<open>hSet\<close> of
    line 162;
  \<^item> \<open>unregisterClient\<close>: the \<open>del\<close> of line 179, the \<open>sRem\<close> of line 182, the \<open>del\<close> of
    line 185;
  \<^item> \<open>subscribeClientToChannel\<close>: the \<open>sAdd\<close> of lines 201, 204 and 207;
  \<^item> \<open>subscribeToRedisChannel\<close>: the \<open>subscribe\<close> of line 245;
  \<^item> \<open>unsubscribeClientFromChannel\<close>: the \<open>sRem\<close> of line 223, the \<open>sMembers\<close> of line
    226 with its reply, the \<open>sMembers\<close> of line 230 with its reply and the clients the
    loop has still to visit, the \<open>sRem\<close> of lines 239 and 240;
  \<^item> \<open>unsubscribeFromRedisChannel\<close>: the \<open>unsubscribe\<close> of line 262.

  \<open>unsubscribeFromChannel\<close> is called by a service handling a frame and by the loop of
  \<open>unregisterLocalClient\<close>, which goes on when the call returns.
\<close>

datatype caller = Service | UnregisterLocalClient

datatype pending =
    RegisterClient_set jsstring "(jsstring \<times> jsstring) list"
  | RegisterClient_sAdd jsstring "(jsstring \<times> jsstring) list"
  | RegisterClient_hSet jsstring
  | UnregisterClient_del jsstring
  | UnregisterClient_sRem jsstring
  | UnregisterClient_delMetadata jsstring
  | Subscribe_channelNodes jsstring jsstring
  | Subscribe_nodeChannels jsstring jsstring
  | Subscribe_clientChannels jsstring jsstring
  | Subscribe_route jsstring
  | Unsubscribe_clientChannels caller jsstring jsstring
  | Unsubscribe_nodeClients caller jsstring jsstring "jsstring list"
  | Unsubscribe_scan caller jsstring jsstring "jsstring list" "jsstring list"
  | Unsubscribe_channelNodes caller jsstring jsstring
  | Unsubscribe_nodeChannels caller jsstring jsstring
  | Unsubscribe_route caller jsstring jsstring

record gateway =
  messageRouter :: router
  awaitingStore :: "pending list"
  awaitingSubscriber :: "pending list"

text \<open>A call has returned, or the operation it belongs to awaits a reply. \<open>andThen\<close> is
  \<open>await call(); rest\<close>.\<close>

datatype progress = Returned | Awaiting

definition andThen :: "progress \<times> gateway \<Rightarrow> (gateway \<Rightarrow> progress \<times> gateway)
    \<Rightarrow> progress \<times> gateway" where
  "andThen call rest =
     (case call of (Awaiting, g) \<Rightarrow> (Awaiting, g) | (Returned, g) \<Rightarrow> rest g)"

definition thisNode :: "gateway \<Rightarrow> jsstring" where
  "thisNode g = nodeId (nodeManager (messageRouter g))"

text \<open>
  A command of the node manager, with its effect on the store and the operation that will
  await its reply (which may hold what the command read). The method returns when there is
  no store (its first line), and when the store rejects the command, through its \<open>catch\<close>.
\<close>

definition issue :: "gateway \<Rightarrow> (kvps \<Rightarrow> kvps) \<Rightarrow> (kvps \<Rightarrow> pending) \<Rightarrow> progress \<times> gateway" where
  "issue g effect waiting =
     (case redis (nodeManager (messageRouter g)) of
        None \<Rightarrow> (Returned, g)
      | Some r \<Rightarrow>
          if failing r then (Returned, g)
          else (Awaiting,
                g\<lparr>messageRouter := (messageRouter g)
                     \<lparr>nodeManager := (nodeManager (messageRouter g))\<lparr>redis := Some (effect r)\<rparr>\<rparr>,
                  awaitingStore := awaitingStore g @ [waiting r]\<rparr>))"

subsection \<open>The node manager's methods, command by command\<close>

text \<open>The part named \<open>_call\<close> runs from the call to the first command; a part named by a
  line runs from that line, where the method resumes, to the next command.\<close>

definition registerClient_call :: "gateway \<Rightarrow> jsstring \<Rightarrow> (jsstring \<times> jsstring) list
    \<Rightarrow> progress \<times> gateway" where
  "registerClient_call g clientId md =
     issue g (\<lambda>r. r\<lparr>clientNode := (clientNode r)(clientId \<mapsto> thisNode g)\<rparr>)
       (\<lambda>r. RegisterClient_set clientId md)"

definition registerClient_149 :: "gateway \<Rightarrow> jsstring \<Rightarrow> (jsstring \<times> jsstring) list
    \<Rightarrow> progress \<times> gateway" where
  "registerClient_149 g clientId md =
     issue g (\<lambda>r. r\<lparr>nodeClients := (nodeClients r)
                        (thisNode g := sAdd (nodeClients r (thisNode g)) clientId)\<rparr>)
       (\<lambda>r. RegisterClient_sAdd clientId md)"

definition registerClient_152 :: "gateway \<Rightarrow> jsstring \<Rightarrow> (jsstring \<times> jsstring) list
    \<Rightarrow> progress \<times> gateway" where
  "registerClient_152 g clientId md =
     (if length (map fst md) > 0
      then issue g (\<lambda>r. r\<lparr>clientMetadata := (clientMetadata r)
                             (clientId := hSet (clientMetadata r clientId) md)\<rparr>)
             (\<lambda>r. RegisterClient_hSet clientId)
      else (Returned, g))"

definition unregisterClient_call :: "gateway \<Rightarrow> jsstring \<Rightarrow> progress \<times> gateway" where
  "unregisterClient_call g clientId =
     issue g (\<lambda>r. r\<lparr>clientNode := (clientNode r)(clientId := None)\<rparr>)
       (\<lambda>r. UnregisterClient_del clientId)"

definition unregisterClient_182 :: "gateway \<Rightarrow> jsstring \<Rightarrow> progress \<times> gateway" where
  "unregisterClient_182 g clientId =
     issue g (\<lambda>r. r\<lparr>nodeClients := (nodeClients r)
                        (thisNode g := sRem (nodeClients r (thisNode g)) clientId)\<rparr>)
       (\<lambda>r. UnregisterClient_sRem clientId)"

definition unregisterClient_185 :: "gateway \<Rightarrow> jsstring \<Rightarrow> progress \<times> gateway" where
  "unregisterClient_185 g clientId =
     issue g (\<lambda>r. r\<lparr>clientMetadata := (clientMetadata r)(clientId := [])\<rparr>)
       (\<lambda>r. UnregisterClient_delMetadata clientId)"

definition subscribeClientToChannel_call :: "gateway \<Rightarrow> jsstring \<Rightarrow> jsstring
    \<Rightarrow> progress \<times> gateway" where
  "subscribeClientToChannel_call g clientId channel =
     issue g (\<lambda>r. r\<lparr>channelNodes := (channelNodes r)
                        (channel := sAdd (channelNodes r channel) (thisNode g))\<rparr>)
       (\<lambda>r. Subscribe_channelNodes clientId channel)"

definition subscribeClientToChannel_204 :: "gateway \<Rightarrow> jsstring \<Rightarrow> jsstring
    \<Rightarrow> progress \<times> gateway" where
  "subscribeClientToChannel_204 g clientId channel =
     issue g (\<lambda>r. r\<lparr>nodeChannels := (nodeChannels r)
                        (thisNode g := sAdd (nodeChannels r (thisNode g)) channel)\<rparr>)
       (\<lambda>r. Subscribe_nodeChannels clientId channel)"

definition subscribeClientToChannel_207 :: "gateway \<Rightarrow> jsstring \<Rightarrow> jsstring
    \<Rightarrow> progress \<times> gateway" where
  "subscribeClientToChannel_207 g clientId channel =
     issue g (\<lambda>r. r\<lparr>clientChannels := (clientChannels r)
                        (clientId := sAdd (clientChannels r clientId) channel)\<rparr>)
       (\<lambda>r. Subscribe_clientChannels clientId channel)"

definition unsubscribeClientFromChannel_call :: "gateway \<Rightarrow> caller \<Rightarrow> jsstring \<Rightarrow> jsstring
    \<Rightarrow> progress \<times> gateway" where
  "unsubscribeClientFromChannel_call g k clientId channel =
     issue g (\<lambda>r. r\<lparr>clientChannels := (clientChannels r)
                        (clientId := sRem (clientChannels r clientId) channel)\<rparr>)
       (\<lambda>r. Unsubscribe_clientChannels k clientId channel)"

definition unsubscribeClientFromChannel_226 :: "gateway \<Rightarrow> caller \<Rightarrow> jsstring \<Rightarrow> jsstring
    \<Rightarrow> progress \<times> gateway" where
  "unsubscribeClientFromChannel_226 g k clientId channel =
     issue g (\<lambda>r. r)
       (\<lambda>r. Unsubscribe_nodeClients k clientId channel (nodeClients r (thisNode g)))"

text \<open>
  The loop of line 229 with the clients it has still to visit, \<open>hasChannelClients\<close> being
  false so far: it reads the channel set of the next client, or, when there is none left,
  goes on to line 238 and removes the node from the channel's node set.
\<close>

definition unsubscribeClientFromChannel_229 :: "gateway \<Rightarrow> caller \<Rightarrow> jsstring \<Rightarrow> jsstring
    \<Rightarrow> jsstring list \<Rightarrow> progress \<times> gateway" where
  "unsubscribeClientFromChannel_229 g k clientId channel nodeClientIds =
     (case nodeClientIds of
        [] \<Rightarrow>
          issue g (\<lambda>r. r\<lparr>channelNodes := (channelNodes r)
                             (channel := sRem (channelNodes r channel) (thisNode g))\<rparr>)
            (\<lambda>r. Unsubscribe_channelNodes k clientId channel)
      | client # rest \<Rightarrow>
          issue g (\<lambda>r. r)
            (\<lambda>r. Unsubscribe_scan k clientId channel (clientChannels r client) rest))"

text \<open>The reply of line 230: \<open>if (clientChannels.includes(channel))\<close> the loop is left with
  \<open>hasChannelClients\<close> true and the method returns; otherwise the loop goes on.\<close>

definition unsubscribeClientFromChannel_231 :: "gateway \<Rightarrow> caller \<Rightarrow> jsstring \<Rightarrow> jsstring
    \<Rightarrow> jsstring list \<Rightarrow> jsstring list \<Rightarrow> progress \<times> gateway" where
  "unsubscribeClientFromChannel_231 g k clientId channel clientChannelIds rest =
     (if channel \<in> set clientChannelIds then (Returned, g)
      else unsubscribeClientFromChannel_229 g k clientId channel rest)"

definition unsubscribeClientFromChannel_240 :: "gateway \<Rightarrow> caller \<Rightarrow> jsstring \<Rightarrow> jsstring
    \<Rightarrow> progress \<times> gateway" where
  "unsubscribeClientFromChannel_240 g k clientId channel =
     issue g (\<lambda>r. r\<lparr>nodeChannels := (nodeChannels r)
                        (thisNode g := sRem (nodeChannels r (thisNode g)) channel)\<rparr>)
       (\<lambda>r. Unsubscribe_nodeChannels k clientId channel)"

subsection \<open>The router's operations\<close>

text \<open>\<open>registerLocalClient\<close> is not \<open>async\<close>: it sets the entry of the client and calls
  \<open>registerClient\<close>, which issues its first command and is left to go on by itself.\<close>

definition registerLocalClient :: "gateway \<Rightarrow> jsstring \<Rightarrow> bool \<Rightarrow> (jsstring \<times> jsstring) list
    \<Rightarrow> gateway" where
  "registerLocalClient g clientId ws md =
     snd (registerClient_call
            (g\<lparr>messageRouter := (messageRouter g)
                 \<lparr>localClients :=
                    AList.update clientId \<lparr>ws_open = ws, metadata = md, channels = []\<rparr>
                      (localClients (messageRouter g))\<rparr>\<rparr>)
            clientId md)"

text \<open>
  A command on the subscriber connection. \<open>subscribe\<close> registers one more listener (each
  call passes a new function, \<open>this.handleChannelMessage.bind(this)\<close>), \<open>unsubscribe\<close>
  removes every listener of the channel; \<open>subscribedChannels\<close> is updated when the reply
  has come.
\<close>

definition subscribeToRedisChannel :: "gateway \<Rightarrow> jsstring \<Rightarrow> progress \<times> gateway" where
  "subscribeToRedisChannel g channel =
     (case redisSubscriber (messageRouter g) of
        None \<Rightarrow> (Returned, g)
      | Some sb \<Rightarrow>
          if channel \<in> set (subscribedChannels (messageRouter g)) then (Returned, g)
          else if sub_failing sb then (Returned, g)
          else (Awaiting,
                g\<lparr>messageRouter := (messageRouter g)
                     \<lparr>redisSubscriber :=
                        Some (sb\<lparr>listeners := listeners sb @ [routeChannel channel]\<rparr>)\<rparr>,
                  awaitingSubscriber := awaitingSubscriber g @ [Subscribe_route channel]\<rparr>))"

definition subscribeToRedisChannel_246 :: "gateway \<Rightarrow> jsstring \<Rightarrow> progress \<times> gateway" where
  "subscribeToRedisChannel_246 g channel =
     (Returned,
      g\<lparr>messageRouter := (messageRouter g)
           \<lparr>subscribedChannels := set_add (subscribedChannels (messageRouter g)) channel\<rparr>\<rparr>)"

definition unsubscribeFromRedisChannel :: "gateway \<Rightarrow> caller \<Rightarrow> jsstring \<Rightarrow> jsstring
    \<Rightarrow> progress \<times> gateway" where
  "unsubscribeFromRedisChannel g k clientId channel =
     (case redisSubscriber (messageRouter g) of
        None \<Rightarrow> (Returned, g)
      | Some sb \<Rightarrow>
          if channel \<notin> set (subscribedChannels (messageRouter g)) then (Returned, g)
          else if sub_failing sb then (Returned, g)
          else (Awaiting,
                g\<lparr>messageRouter := (messageRouter g)
                     \<lparr>redisSubscriber :=
                        Some (sb\<lparr>listeners := removeAll (routeChannel channel) (listeners sb)\<rparr>)\<rparr>,
                  awaitingSubscriber :=
                    awaitingSubscriber g @ [Unsubscribe_route k clientId channel]\<rparr>))"

definition unsubscribeFromRedisChannel_263 :: "gateway \<Rightarrow> jsstring \<Rightarrow> progress \<times> gateway" where
  "unsubscribeFromRedisChannel_263 g channel =
     (Returned,
      g\<lparr>messageRouter := (messageRouter g)
           \<lparr>subscribedChannels := set_delete (subscribedChannels (messageRouter g)) channel\<rparr>\<rparr>)"

text \<open>\<open>subscribeToChannel\<close> from line 77, after the node manager has returned, and from
  its first line.\<close>

definition subscribeToChannel_77 :: "gateway \<Rightarrow> jsstring \<Rightarrow> progress \<times> gateway" where
  "subscribeToChannel_77 g channel =
     (if channel \<notin> set (subscribedChannels (messageRouter g))
      then subscribeToRedisChannel g channel
      else (Returned, g))"

definition subscribeToChannel :: "gateway \<Rightarrow> jsstring \<Rightarrow> jsstring \<Rightarrow> progress \<times> gateway" where
  "subscribeToChannel g clientId channel =
     (case map_of (localClients (messageRouter g)) clientId of
        None \<Rightarrow> (Returned, g)
      | Some client \<Rightarrow>
          andThen
            (subscribeClientToChannel_call
               (g\<lparr>messageRouter := (messageRouter g)
                    \<lparr>localClients :=
                       AList.update clientId
                         (client\<lparr>channels := set_add (channels client) channel\<rparr>)
                         (localClients (messageRouter g))\<rparr>\<rparr>)
               clientId channel)
            (\<lambda>g1. subscribeToChannel_77 g1 channel))"

text \<open>\<open>Array.from(this.localClients.values()).some(c => c.channels.has(channel))\<close>\<close>

definition stillNeeded :: "router \<Rightarrow> jsstring \<Rightarrow> bool" where
  "stillNeeded s channel = list_ex (\<lambda>(clientId, c). channel \<in> set (channels c)) (localClients s)"

text \<open>\<open>unsubscribeFromChannel\<close> from line 95, after the node manager has returned, and
  from its first line.\<close>

definition unsubscribeFromChannel_95 :: "gateway \<Rightarrow> caller \<Rightarrow> jsstring \<Rightarrow> jsstring
    \<Rightarrow> progress \<times> gateway" where
  "unsubscribeFromChannel_95 g k clientId channel =
     (if \<not> stillNeeded (messageRouter g) channel
      then unsubscribeFromRedisChannel g k clientId channel
      else (Returned, g))"

definition unsubscribeFromChannel :: "gateway \<Rightarrow> caller \<Rightarrow> jsstring \<Rightarrow> jsstring
    \<Rightarrow> progress \<times> gateway" where
  "unsubscribeFromChannel g k clientId channel =
     (case map_of (localClients (messageRouter g)) clientId of
        None \<Rightarrow> (Returned, g)
      | Some client \<Rightarrow>
          andThen
            (unsubscribeClientFromChannel_call
               (g\<lparr>messageRouter := (messageRouter g)
                    \<lparr>localClients :=
                       AList.update clientId
                         (client\<lparr>channels := set_delete (channels client) channel\<rparr>)
                         (localClients (messageRouter g))\<rparr>\<rparr>)
               k clientId channel)
            (\<lambda>g1. unsubscribeFromChannel_95 g1 k clientId channel))"

text \<open>
  The loop of \<open>unregisterLocalClient\<close>, line 52, iterates the channel set of the client
  while \<open>unsubscribeFromChannel\<close> deletes from it. The iterator of a \<open>Set\<close> visits the
  entries that follow its position in insertion order, those added meanwhile included.
  Every entry the loop has visited was deleted by the call made for it, so as long as the
  client is in \<open>localClients\<close> the next entry is the first of the set. \<open>visit\<close> is the
  loop from the first of the entries listed, with what it does when a call returns at
  once; when a call waits, the loop resumes on the set as it is then. Once the client is
  no longer in \<open>localClients\<close> (another \<open>unregisterLocalClient\<close> for it has finished its
  loop; \<open>server.js\<close> listens to both \<open>close\<close> and \<open>error\<close>), the calls for the entries
  left return at their first test and change nothing, and the loop ends. Client
  identifiers are drawn from the clock and eight random bytes (\<open>generateClientId\<close>), so an
  identifier names one client object.
\<close>

fun visit :: "jsstring list \<Rightarrow> gateway \<Rightarrow> jsstring \<Rightarrow> progress \<times> gateway" where
  "visit [] g clientId = (Returned, g)"
| "visit (channel # rest) g clientId =
     (case unsubscribeFromChannel g UnregisterLocalClient clientId channel of
        (Awaiting, g1) \<Rightarrow> (Awaiting, g1)
      | (Returned, g1) \<Rightarrow> visit rest g1 clientId)"

text \<open>\<open>unregisterLocalClient\<close> from its loop on (lines 52 to 57), and from its first
  line.\<close>

definition unregisterLocalClient_52 :: "gateway \<Rightarrow> jsstring \<Rightarrow> progress \<times> gateway" where
  "unregisterLocalClient_52 g clientId =
     andThen
       (case map_of (localClients (messageRouter g)) clientId of
          None \<Rightarrow> (Returned, g)
        | Some client \<Rightarrow> visit (channels client) g clientId)
       (\<lambda>g1. unregisterClient_call
                (g1\<lparr>messageRouter := (messageRouter g1)
                      \<lparr>localClients := AList.delete clientId (localClients (messageRouter g1))\<rparr>\<rparr>)
                clientId)"

definition unregisterLocalClient :: "gateway \<Rightarrow> jsstring \<Rightarrow> progress \<times> gateway" where
  "unregisterLocalClient g clientId =
     (case map_of (localClients (messageRouter g)) clientId of
        None \<Rightarrow> (Returned, g)
      | Some client \<Rightarrow> unregisterLocalClient_52 g clientId)"

subsection \<open>Replies and events\<close>

text \<open>
  What the operation does when the reply it awaits arrives. When \<open>unsubscribeFromChannel\<close>
  returns to the loop of \<open>unregisterLocalClient\<close>, the loop goes on.
\<close>

definition backTo :: "caller \<Rightarrow> jsstring \<Rightarrow> progress \<times> gateway \<Rightarrow> gateway" where
  "backTo k clientId call =
     (case k of
        Service \<Rightarrow> snd call
      | UnregisterLocalClient \<Rightarrow>
          snd (andThen call (\<lambda>g. unregisterLocalClient_52 g clientId)))"

fun resume :: "gateway \<Rightarrow> pending \<Rightarrow> gateway" where
  "resume g (RegisterClient_set clientId md) = snd (registerClient_149 g clientId md)"
| "resume g (RegisterClient_sAdd clientId md) = snd (registerClient_152 g clientId md)"
| "resume g (RegisterClient_hSet clientId) = g"
| "resume g (UnregisterClient_del clientId) = snd (unregisterClient_182 g clientId)"
| "resume g (UnregisterClient_sRem clientId) = snd (unregisterClient_185 g clientId)"
| "resume g (UnregisterClient_delMetadata clientId) = g"
| "resume g (Subscribe_channelNodes clientId channel) =
     snd (andThen (subscribeClientToChannel_204 g clientId channel)
            (\<lambda>g1. subscribeToChannel_77 g1 channel))"
| "resume g (Subscribe_nodeChannels clientId channel) =
     snd (andThen (subscribeClientToChannel_207 g clientId channel)
            (\<lambda>g1. subscribeToChannel_77 g1 channel))"
| "resume g (Subscribe_clientChannels clientId channel) = snd (subscribeToChannel_77 g channel)"
| "resume g (Subscribe_route channel) = snd (subscribeToRedisChannel_246 g channel)"
| "resume g (Unsubscribe_clientChannels k clientId channel) =
     backTo k clientId
       (andThen (unsubscribeClientFromChannel_226 g k clientId channel)
          (\<lambda>g1. unsubscribeFromChannel_95 g1 k clientId channel))"
| "resume g (Unsubscribe_nodeClients k clientId channel nodeClientIds) =
     backTo k clientId
       (andThen (unsubscribeClientFromChannel_229 g k clientId channel nodeClientIds)
          (\<lambda>g1. unsubscribeFromChannel_95 g1 k clientId channel))"
| "resume g (Unsubscribe_scan k clientId channel clientChannelIds rest) =
     backTo k clientId
       (andThen (unsubscribeClientFromChannel_231 g k clientId channel clientChannelIds rest)
          (\<lambda>g1. unsubscribeFromChannel_95 g1 k clientId channel))"
| "resume g (Unsubscribe_channelNodes k clientId channel) =
     backTo k clientId
       (andThen (unsubscribeClientFromChannel_240 g k clientId channel)
          (\<lambda>g1. unsubscribeFromChannel_95 g1 k clientId channel))"
| "resume g (Unsubscribe_nodeChannels k clientId channel) =
     backTo k clientId (unsubscribeFromChannel_95 g k clientId channel)"
| "resume g (Unsubscribe_route k clientId channel) =
     backTo k clientId (unsubscribeFromRedisChannel_263 g channel)"

text \<open>
  What happens to the process: a client connects, a service handling a frame of a client
  calls \<open>subscribeToChannel\<close> or \<open>unsubscribeFromChannel\<close>, the socket of a client closes
  and \<open>server.js\<close> calls \<open>unregisterLocalClient\<close>, or the oldest command in flight on one
  of the two connections is answered. A run takes the events in order.
\<close>

datatype event =
    Connect jsstring bool "(jsstring \<times> jsstring) list"
  | Join jsstring jsstring
  | Leave jsstring jsstring
  | Disconnect jsstring
  | StoreReply
  | SubscriberReply

fun step :: "gateway \<Rightarrow> event \<Rightarrow> gateway" where
  "step g (Connect clientId ws md) = registerLocalClient g clientId ws md"
| "step g (Join clientId channel) = snd (subscribeToChannel g clientId channel)"
| "step g (Leave clientId channel) = snd (unsubscribeFromChannel g Service clientId channel)"
| "step g (Disconnect clientId) = snd (unregisterLocalClient g clientId)"
| "step g StoreReply =
     (case awaitingStore g of
        [] \<Rightarrow> g
      | p # ps \<Rightarrow> resume (g\<lparr>awaitingStore := ps\<rparr>) p)"
| "step g SubscriberReply =
     (case awaitingSubscriber g of
        [] \<Rightarrow> g
      | p # ps \<Rightarrow> resume (g\<lparr>awaitingSubscriber := ps\<rparr>) p)"

definition run :: "gateway \<Rightarrow> event list \<Rightarrow> gateway" where
  "run g events = foldl step g events"

section \<open>Client frames\<close>

text \<open>
  A value parsed from a client frame. Numbers are the finite numbers JSON can write; the
  services only ask for their type, test them against zero and compare them with zero.
\<close>

datatype jsval =
    JUndefined
  | JNull
  | JBool bool
  | JNum real
  | JStr jsstring
  | JArr "jsval list"
  | JObj "(jsstring \<times> jsval) list"

datatype jstype = T_undefined | T_object | T_boolean | T_number | T_string

fun typeof :: "jsval \<Rightarrow> jstype" where
  "typeof JUndefined = T_undefined"
| "typeof JNull = T_object"
| "typeof (JBool b) = T_boolean"
| "typeof (JNum n) = T_number"
| "typeof (JStr s) = T_string"
| "typeof (JArr xs) = T_object"
| "typeof (JObj kvs) = T_object"

text \<open>\<open>!!v\<close>\<close>

fun truthy :: "jsval \<Rightarrow> bool" where
  "truthy JUndefined = False"
| "truthy JNull = False"
| "truthy (JBool b) = b"
| "truthy (JNum n) = (n \<noteq> 0)"
| "truthy (JStr s) = (s \<noteq> [])"
| "truthy (JArr xs) = True"
| "truthy (JObj kvs) = True"

text \<open>\<open>v[name]\<close> for a value that is neither \<open>undefined\<close> nor \<open>null\<close> and a name that no
  prototype defines (\<open>x\<close>, \<open>y\<close>, \<open>row\<close>, \<open>col\<close>, \<open>position\<close>, \<open>userInitials\<close>,
  \<open>userColor\<close>).\<close>

fun getProperty :: "jsval \<Rightarrow> jsstring \<Rightarrow> jsval" where
  "getProperty (JObj kvs) name = (case map_of kvs name of None \<Rightarrow> JUndefined | Some v \<Rightarrow> v)"
| "getProperty v name = JUndefined"

text \<open>
  The fields a service takes out of the frame (\<open>data\<close>, the frame without \<open>service\<close> and
  \<open>action\<close>). The model types them: \<open>channel\<close>, \<open>mode\<close> and \<open>emoji\<close> are strings and
  \<open>metadata\<close> is an object when they are present, \<open>limit\<close> is an integer when present
  (\<open>None\<close> is the absent field, \<open>undefined\<close>); \<open>message\<close> and \<open>position\<close> are any value.
\<close>

record request =
  req_channel :: "jsstring option"
  req_message :: jsval
  req_metadata :: "(jsstring \<times> jsval) list option"
  req_limit :: "int option"
  req_position :: jsval
  req_mode :: "jsstring option"
  req_emoji :: "jsstring option"


text \<open>What a service asks of the router, in the order of the calls.\<close>

datatype 'p router_call =
    SubscribeToChannel jsstring jsstring
  | UnsubscribeFromChannel jsstring jsstring
  | SendToChannel jsstring 'p "jsstring option"
  | SendToClient jsstring 'p
  | SendToLocalClient jsstring 'p

text \<open>\<open>xs.slice(start)\<close>\<close>

definition jsSlice :: "int \<Rightarrow> 'a list \<Rightarrow> 'a list" where
  "jsSlice start xs =
     (let len = int (length xs);
          k = (if start < 0 then max (len + start) 0 else min start len)
      in drop (nat k) xs)"

section \<open>The chat service (services/chat-service.js)\<close>

text \<open>
  A handler takes the service, the instant \<open>now\<close> that its clock reads return, what
  \<open>generateMessageId()\<close> returns in that call, the client and the request; it returns the
  service and the calls made on the router. A \<open>Map\<close> the code reads by key only is a
  partial function. Without a router (\<open>messageRouter\<close> is \<open>null\<close>) the service only logs.
\<close>

record chat_msg =
  msg_id :: jsstring
  msg_clientId :: jsstring
  msg_channel :: jsstring
  msg_message :: jsstring
  msg_metadata :: "(jsstring \<times> jsval) list"
  msg_timestamp :: int

datatype chat_payload =
    ChatError jsstring int
  | ChatJoined jsstring int
  | ChatLeft jsstring int
  | ChatHistory jsstring "chat_msg list" int
  | ChatMessage jsstring chat_msg int
  | ChatSent jsstring jsstring int

record chat_service =
  chat_messageRouter :: bool
  chat_clientChannels :: "jsstring \<rightharpoonup> jsstring list"
  channelHistory :: "jsstring \<rightharpoonup> chat_msg list"

definition ChatService :: "bool \<Rightarrow> chat_service" where
  "ChatService router =
     \<lparr>chat_messageRouter = router, chat_clientChannels = Map.empty, channelHistory = Map.empty\<rparr>"

definition chat_maxHistorySize :: nat where
  "chat_maxHistorySize = 100"

definition chat_isDistributed :: "chat_service \<Rightarrow> bool" where
  "chat_isDistributed svc = chat_messageRouter svc"

definition chat_sendToClient :: "chat_service \<Rightarrow> jsstring \<Rightarrow> chat_payload
    \<Rightarrow> chat_payload router_call list" where
  "chat_sendToClient svc clientId message =
     (if chat_messageRouter svc then [SendToClient clientId message] else [])"

definition chat_sendError :: "chat_service \<Rightarrow> int \<Rightarrow> jsstring \<Rightarrow> jsstring
    \<Rightarrow> chat_payload router_call list" where
  "chat_sendError svc now clientId error = chat_sendToClient svc clientId (ChatError error now)"

definition addToChannelHistory :: "chat_service \<Rightarrow> jsstring \<Rightarrow> chat_msg \<Rightarrow> chat_service" where
  "addToChannelHistory svc channel messageData =
     (let history = (case channelHistory svc channel of None \<Rightarrow> [] | Some h \<Rightarrow> h) @ [messageData];
          trimmed = (if length history > chat_maxHistorySize
                     then drop (length history - chat_maxHistorySize) history
                     else history)
      in svc\<lparr>channelHistory := (channelHistory svc)(channel \<mapsto> trimmed)\<rparr>)"

definition getChannelHistory :: "chat_service \<Rightarrow> jsstring \<Rightarrow> int \<Rightarrow> chat_msg list" where
  "getChannelHistory svc channel limit =
     jsSlice (- limit) (case channelHistory svc channel of None \<Rightarrow> [] | Some h \<Rightarrow> h)"

definition sendChannelHistory :: "chat_service \<Rightarrow> int \<Rightarrow> jsstring \<Rightarrow> jsstring
    \<Rightarrow> chat_payload router_call list" where
  "sendChannelHistory svc now clientId channel =
     (let history = getChannelHistory svc channel 20
      in if length history > 0
         then chat_sendToClient svc clientId (ChatHistory channel history now)
         else [])"

definition broadcastMessage :: "chat_service \<Rightarrow> int \<Rightarrow> jsstring \<Rightarrow> chat_msg
    \<Rightarrow> chat_payload router_call list" where
  "broadcastMessage svc now channel messageData =
     (if chat_isDistributed svc
      then [SendToChannel channel (ChatMessage channel messageData now) None]
      else [])"

definition handleJoinChannel :: "chat_service \<Rightarrow> int \<Rightarrow> jsstring \<Rightarrow> request
    \<Rightarrow> chat_service \<times> chat_payload router_call list" where
  "handleJoinChannel svc now clientId data =
     (case req_channel data of
        None \<Rightarrow> (svc, chat_sendError svc now clientId (ascii ''Channel name is required''))
      | Some channel \<Rightarrow>
          if channel = []
          then (svc, chat_sendError svc now clientId (ascii ''Channel name is required''))
          else if length channel = 0 \<or> length channel > 50
          then (svc, chat_sendError svc now clientId
                  (ascii ''Channel name must be a string between 1 and 50 characters''))
          else
            (let joined = (case chat_clientChannels svc clientId of None \<Rightarrow> [] | Some cs \<Rightarrow> cs);
                 svc' = svc\<lparr>chat_clientChannels :=
                          (chat_clientChannels svc)(clientId \<mapsto> set_add joined channel)\<rparr>
             in (svc',
                 (if chat_isDistributed svc then [SubscribeToChannel clientId channel] else [])
                 @ chat_sendToClient svc clientId (ChatJoined channel now)
                 @ sendChannelHistory svc' now clientId channel)))"

definition handleLeaveChannel :: "chat_service \<Rightarrow> int \<Rightarrow> jsstring \<Rightarrow> request
    \<Rightarrow> chat_service \<times> chat_payload router_call list" where
  "handleLeaveChannel svc now clientId data =
     (case req_channel data of
        None \<Rightarrow> (svc, chat_sendError svc now clientId (ascii ''Channel name is required''))
      | Some channel \<Rightarrow>
          if channel = []
          then (svc, chat_sendError svc now clientId (ascii ''Channel name is required''))
          else
            (let svc' =
                   (case chat_clientChannels svc clientId of
                      None \<Rightarrow> svc
                    | Some cs \<Rightarrow>
                        if length (set_delete cs channel) = 0
                        then svc\<lparr>chat_clientChannels := (chat_clientChannels svc)(clientId := None)\<rparr>
                        else svc\<lparr>chat_clientChannels :=
                                 (chat_clientChannels svc)(clientId \<mapsto> set_delete cs channel)\<rparr>)
             in (svc',
                 (if chat_isDistributed svc then [UnsubscribeFromChannel clientId channel] else [])
                 @ chat_sendToClient svc clientId (ChatLeft channel now))))"

definition handleSendMessage :: "chat_service \<Rightarrow> int \<Rightarrow> jsstring \<Rightarrow> jsstring \<Rightarrow> request
    \<Rightarrow> chat_service \<times> chat_payload router_call list" where
  "handleSendMessage svc now messageId clientId data =
     (case req_channel data of
        None \<Rightarrow> (svc, chat_sendError svc now clientId (ascii ''Channel and message are required''))
      | Some channel \<Rightarrow>
          if channel = [] \<or> \<not> truthy (req_message data)
          then (svc, chat_sendError svc now clientId (ascii ''Channel and message are required''))
          else
            (case req_message data of
               JStr message \<Rightarrow>
                 if length message = 0 \<or> length message > 1000
                 then (svc, chat_sendError svc now clientId
                         (ascii ''Message must be a string between 1 and 1000 characters''))
                 else
                   (case chat_clientChannels svc clientId of
                      None \<Rightarrow> (svc, chat_sendError svc now clientId
                                 (ascii ''You must join the channel before sending messages''))
                    | Some clientChannelSet \<Rightarrow>
                        if channel \<notin> set clientChannelSet
                        then (svc, chat_sendError svc now clientId
                                (ascii ''You must join the channel before sending messages''))
                        else
                          (let messageData =
                                 \<lparr>msg_id = messageId, msg_clientId = clientId,
                                  msg_channel = channel, msg_message = message,
                                  msg_metadata =
                                    (case req_metadata data of None \<Rightarrow> [] | Some m \<Rightarrow> m),
                                  msg_timestamp = now\<rparr>
                           in (addToChannelHistory svc channel messageData,
                               broadcastMessage svc now channel messageData
                               @ chat_sendToClient svc clientId (ChatSent messageId channel now))))
             | other \<Rightarrow> (svc, chat_sendError svc now clientId
                           (ascii ''Message must be a string between 1 and 1000 characters''))))"

definition handleGetHistory :: "chat_service \<Rightarrow> int \<Rightarrow> jsstring \<Rightarrow> request
    \<Rightarrow> chat_service \<times> chat_payload router_call list" where
  "handleGetHistory svc now clientId data =
     (case req_channel data of
        None \<Rightarrow> (svc, chat_sendError svc now clientId (ascii ''Channel name is required''))
      | Some channel \<Rightarrow>
          if channel = []
          then (svc, chat_sendError svc now clientId (ascii ''Channel name is required''))
          else
            (svc, chat_sendToClient svc clientId
                    (ChatHistory channel
                       (getChannelHistory svc channel
                          (case req_limit data of None \<Rightarrow> 50 | Some l \<Rightarrow> l)) now)))"

definition chat_handleAction :: "chat_service \<Rightarrow> int \<Rightarrow> jsstring \<Rightarrow> jsstring \<Rightarrow> jsstring
    \<Rightarrow> request \<Rightarrow> chat_service \<times> chat_payload router_call list" where
  "chat_handleAction svc now messageId clientId action data =
     (if action = ascii ''join'' then handleJoinChannel svc now clientId data
      else if action = ascii ''leave'' then handleLeaveChannel svc now clientId data
      else if action = ascii ''send'' then handleSendMessage svc now messageId clientId data
      else if action = ascii ''history'' then handleGetHistory svc now clientId data
      else (svc, chat_sendError svc now clientId (ascii ''Unknown chat action: '' @ action)))"

text \<open>A sequence of frames handled one after the other: each is the instant, the message
  identifier drawn, the client, the action and the request.\<close>

fun chat_run :: "chat_service \<Rightarrow> (int \<times> jsstring \<times> jsstring \<times> jsstring \<times> request) list
    \<Rightarrow> chat_service" where
  "chat_run svc [] = svc"
| "chat_run svc ((now, messageId, clientId, action, data) # calls) =
     chat_run (fst (chat_handleAction svc now messageId clientId action data)) calls"

section \<open>The reaction service (services/reaction-service.js)\<close>

record reaction =
  reaction_id :: jsstring
  reaction_clientId :: jsstring
  reaction_channel :: jsstring
  reaction_emoji :: jsstring
  reaction_effect :: "jsstring option"
  reaction_position :: jsval
  reaction_metadata :: "(jsstring \<times> jsval) list"
  reaction_timestamp :: int

datatype reaction_payload =
    ReactionError jsstring
  | ReactionSubscribed jsstring "jsstring list"
  | ReactionUnsubscribed jsstring
  | ReactionReceived reaction
  | ReactionSent jsstring jsstring jsstring int
  | AvailableReactions "(jsstring \<times> jsstring \<times> jsstring) list"

text \<open>\<open>clientChannels\<close> is iterated by the local broadcast, so it is a list of entries.\<close>

record reaction_service =
  reaction_messageRouter :: bool
  reaction_clientChannels :: "(jsstring \<times> jsstring list) list"
  reactionHistory :: "jsstring \<rightharpoonup> reaction list"

definition ReactionService :: "bool \<Rightarrow> reaction_service" where
  "ReactionService router =
     \<lparr>reaction_messageRouter = router, reaction_clientChannels = [],
      reactionHistory = Map.empty\<rparr>"

definition reaction_maxHistorySize :: nat where
  "reaction_maxHistorySize = 50"

text \<open>The catalog: each emoji, as its UTF-16 code units, with its name and its effect.\<close>

definition availableReactions :: "(jsstring \<times> jsstring \<times> jsstring) list" where
  "availableReactions =
     [([0x2764, 0xFE0F], ascii ''heart'', ascii ''pulse-red''),
      ([0xD83D, 0xDE02], ascii ''laugh'', ascii ''shake''),
      ([0xD83D, 0xDC4D], ascii ''thumbs-up'', ascii ''bounce-green''),
      ([0xD83D, 0xDC4E], ascii ''thumbs-down'', ascii ''bounce-red''),
      ([0xD83D, 0xDE2E], ascii ''wow'', ascii ''zoom''),
      ([0xD83D, 0xDE22], ascii ''sad'', ascii ''fade-blue''),
      ([0xD83D, 0xDE21], ascii ''angry'', ascii ''shake-red''),
      ([0xD83C, 0xDF89], ascii ''party'', ascii ''confetti''),
      ([0xD83D, 0xDD25], ascii ''fire'', ascii ''flicker-orange''),
      ([0x26A1], ascii ''lightning'', ascii ''flash-yellow''),
      ([0xD83D, 0xDCAF], ascii ''hundred'', ascii ''spin-gold''),
      ([0xD83D, 0xDE80], ascii ''rocket'', ascii ''fly-up'')]"

text \<open>
  \<open>object[key]\<close> on an object literal finds the literal's own entries and, failing that,
  what \<open>Object.prototype\<close> defines: functions and objects, all truthy, none with an
  \<open>effect\<close> or a \<open>requiredFields\<close> property.
\<close>

definition objectPrototypeKeys :: "jsstring list" where
  "objectPrototypeKeys =
     map ascii [''constructor'', ''__defineGetter__'', ''__defineSetter__'', ''hasOwnProperty'',
       ''__lookupGetter__'', ''__lookupSetter__'', ''isPrototypeOf'', ''propertyIsEnumerable'',
       ''toString'', ''valueOf'', ''__proto__'', ''toLocaleString'']"

datatype 'a js_lookup = Own 'a | Inherited | NoProperty

definition lookupProperty :: "(jsstring \<times> 'a) list \<Rightarrow> jsstring \<Rightarrow> 'a js_lookup" where
  "lookupProperty object key =
     (case map_of object key of
        Some v \<Rightarrow> Own v
      | None \<Rightarrow> if key \<in> set objectPrototypeKeys then Inherited else NoProperty)"

definition reaction_isDistributed :: "reaction_service \<Rightarrow> bool" where
  "reaction_isDistributed svc = reaction_messageRouter svc"

definition reaction_sendToClient :: "reaction_service \<Rightarrow> jsstring \<Rightarrow> reaction_payload
    \<Rightarrow> reaction_payload router_call list" where
  "reaction_sendToClient svc clientId message =
     (if reaction_messageRouter svc then [SendToLocalClient clientId message] else [])"

definition reaction_sendError :: "reaction_service \<Rightarrow> jsstring \<Rightarrow> jsstring
    \<Rightarrow> reaction_payload router_call list" where
  "reaction_sendError svc clientId error = reaction_sendToClient svc clientId (ReactionError error)"

definition reaction_broadcastToLocalChannel :: "reaction_service \<Rightarrow> jsstring \<Rightarrow> reaction_payload
    \<Rightarrow> reaction_payload router_call list" where
  "reaction_broadcastToLocalChannel svc channel message =
     concat (map (\<lambda>(clientId, chans).
        if channel \<in> set chans then reaction_sendToClient svc clientId message else [])
       (reaction_clientChannels svc))"

definition handleSubscribeToReactions :: "reaction_service \<Rightarrow> jsstring \<Rightarrow> request
    \<Rightarrow> reaction_service \<times> reaction_payload router_call list" where
  "handleSubscribeToReactions svc clientId data =
     (case req_channel data of
        None \<Rightarrow> (svc, reaction_sendError svc clientId (ascii ''Channel name is required''))
      | Some channel \<Rightarrow>
          if channel = []
          then (svc, reaction_sendError svc clientId (ascii ''Channel name is required''))
          else if length channel = 0 \<or> length channel > 50
          then (svc, reaction_sendError svc clientId
                  (ascii ''Channel name must be a string between 1 and 50 characters''))
          else
            (let subscribed = (case map_of (reaction_clientChannels svc) clientId of
                                 None \<Rightarrow> [] | Some cs \<Rightarrow> cs);
                 svc' = svc\<lparr>reaction_clientChannels :=
                          AList.update clientId (set_add subscribed channel)
                            (reaction_clientChannels svc)\<rparr>
             in (svc',
                 (if reaction_isDistributed svc
                  then [SubscribeToChannel clientId (ascii ''reactions:'' @ channel)] else [])
                 @ reaction_sendToClient svc clientId
                     (ReactionSubscribed channel (map fst availableReactions)))))"

definition handleUnsubscribeFromReactions :: "reaction_service \<Rightarrow> jsstring \<Rightarrow> request
    \<Rightarrow> reaction_service \<times> reaction_payload router_call list" where
  "handleUnsubscribeFromReactions svc clientId data =
     (case req_channel data of
        None \<Rightarrow> (svc, reaction_sendError svc clientId (ascii ''Channel name is required''))
      | Some channel \<Rightarrow>
          if channel = []
          then (svc, reaction_sendError svc clientId (ascii ''Channel name is required''))
          else
            (let svc' =
                   (case map_of (reaction_clientChannels svc) clientId of
                      None \<Rightarrow> svc
                    | Some cs \<Rightarrow>
                        if length (set_delete cs channel) = 0
                        then svc\<lparr>reaction_clientChannels :=
                                 AList.delete clientId (reaction_clientChannels svc)\<rparr>
                        else svc\<lparr>reaction_clientChannels :=
                                 AList.update clientId (set_delete cs channel)
                                   (reaction_clientChannels svc)\<rparr>)
             in (svc',
                 (if reaction_isDistributed svc
                  then [UnsubscribeFromChannel clientId (ascii ''reactions:'' @ channel)] else [])
                 @ reaction_sendToClient svc clientId (ReactionUnsubscribed channel))))"

text \<open>
  \<open>history.push(reaction); if (history.length > this.maxHistorySize) history.shift()\<close>
\<close>

definition recordReaction :: "reaction_service \<Rightarrow> jsstring \<Rightarrow> reaction \<Rightarrow> reaction_service" where
  "recordReaction svc channel r =
     (let history = (case reactionHistory svc channel of None \<Rightarrow> [] | Some h \<Rightarrow> h) @ [r];
          kept = (if length history > reaction_maxHistorySize then tl history else history)
      in svc\<lparr>reactionHistory := (reactionHistory svc)(channel \<mapsto> kept)\<rparr>)"

definition handleSendReaction :: "reaction_service \<Rightarrow> int \<Rightarrow> jsstring \<Rightarrow> jsstring \<Rightarrow> request
    \<Rightarrow> reaction_service \<times> reaction_payload router_call list" where
  "handleSendReaction svc now reactionId clientId data =
     (case (req_channel data, req_emoji data) of
        (Some channel, Some emoji) \<Rightarrow>
          if channel = [] \<or> emoji = []
          then (svc, reaction_sendError svc clientId (ascii ''Channel and emoji are required''))
          else
            (case lookupProperty availableReactions emoji of
               NoProperty \<Rightarrow> (svc, reaction_sendError svc clientId (ascii ''Invalid emoji reaction''))
             | found \<Rightarrow>
                 (let r = \<lparr>reaction_id = reactionId, reaction_clientId = clientId,
                           reaction_channel = channel, reaction_emoji = emoji,
                           reaction_effect =
                             (case found of Own (name, effect) \<Rightarrow> Some effect | other \<Rightarrow> None),
                           reaction_position =
                             (if req_position data = JUndefined then JNull else req_position data),
                           reaction_metadata =
                             (case req_metadata data of None \<Rightarrow> [] | Some m \<Rightarrow> m),
                           reaction_timestamp = now\<rparr>
                  in (recordReaction svc channel r,
                      (if reaction_isDistributed svc
                       then [SendToChannel (ascii ''reactions:'' @ channel) (ReactionReceived r) None]
                       else reaction_broadcastToLocalChannel svc channel (ReactionReceived r))
                      @ reaction_sendToClient svc clientId
                          (ReactionSent reactionId emoji channel now))))
      | other \<Rightarrow> (svc, reaction_sendError svc clientId (ascii ''Channel and emoji are required'')))"

definition handleGetAvailableReactions :: "reaction_service \<Rightarrow> jsstring
    \<Rightarrow> reaction_service \<times> reaction_payload router_call list" where
  "handleGetAvailableReactions svc clientId =
     (svc, reaction_sendToClient svc clientId (AvailableReactions availableReactions))"

definition reaction_handleAction :: "reaction_service \<Rightarrow> int \<Rightarrow> jsstring \<Rightarrow> jsstring
    \<Rightarrow> jsstring \<Rightarrow> request \<Rightarrow> reaction_service \<times> reaction_payload router_call list" where
  "reaction_handleAction svc now reactionId clientId action data =
     (if action = ascii ''subscribe'' then handleSubscribeToReactions svc clientId data
      else if action = ascii ''unsubscribe'' then handleUnsubscribeFromReactions svc clientId data
      else if action = ascii ''send'' then handleSendReaction svc now reactionId clientId data
      else if action = ascii ''getAvailable'' then handleGetAvailableReactions svc clientId
      else (svc, reaction_sendError svc clientId (ascii ''Unknown reaction action: '' @ action)))"

fun reaction_run :: "reaction_service
    \<Rightarrow> (int \<times> jsstring \<times> jsstring \<times> jsstring \<times> request) list \<Rightarrow> reaction_service" where
  "reaction_run svc [] = svc"
| "reaction_run svc ((now, reactionId, clientId, action, data) # calls) =
     reaction_run (fst (reaction_handleAction svc now reactionId clientId action data)) calls"

section \<open>The cursor service\<close>

text \<open>
  The repository holds two versions of \<open>services/cursor-service.js\<close>. Both keep the same
  three maps and share \<open>shouldUpdateCursor\<close>, the broadcasts and the reading of a channel's
  cursors. What is particular to the multi-mode version, which also has the sweeper for
  entries past their time to live, carries the prefix \<open>mm\<close> below when the name is taken.
  \<open>clientCursors\<close> and \<open>channelCursors\<close> are iterated, so they are lists of entries; the
  timestamp of an entry is the instant its ISO string encodes.
\<close>

record cursor_data =
  cursor_clientId :: jsstring
  cursor_channel :: jsstring
  cursor_position :: jsval
  cursor_metadata :: "(jsstring \<times> jsval) list"
  cursor_timestamp :: int

datatype cursor_payload =
    CursorError jsstring int
  | CursorUpdate jsstring cursor_data int
  | CursorRemove jsstring jsstring int

record cursor_service =
  cursor_messageRouter :: bool
  clientCursors :: "(jsstring \<times> cursor_data) list"
  channelCursors :: "(jsstring \<times> (jsstring \<times> cursor_data) list) list"
  cursorUpdateThrottle :: "jsstring \<rightharpoonup> int"

definition CursorService :: "bool \<Rightarrow> cursor_service" where
  "CursorService router =
     \<lparr>cursor_messageRouter = router, clientCursors = [], channelCursors = [],
      cursorUpdateThrottle = Map.empty\<rparr>"

definition throttleInterval :: int where
  "throttleInterval = 250"

definition cursorTTL :: int where
  "cursorTTL = 30000"

definition cleanupInterval :: int where
  "cleanupInterval = 10000"

definition cursor_isDistributed :: "cursor_service \<Rightarrow> bool" where
  "cursor_isDistributed svc = cursor_messageRouter svc"

definition cursor_sendToClient :: "cursor_service \<Rightarrow> jsstring \<Rightarrow> cursor_payload
    \<Rightarrow> cursor_payload router_call list" where
  "cursor_sendToClient svc clientId message =
     (if cursor_messageRouter svc then [SendToClient clientId message] else [])"

definition cursor_sendError :: "cursor_service \<Rightarrow> int \<Rightarrow> jsstring \<Rightarrow> jsstring
    \<Rightarrow> cursor_payload router_call list" where
  "cursor_sendError svc now clientId error = cursor_sendToClient svc clientId (CursorError error now)"

text \<open>\<open>this.cursorUpdateThrottle.get(clientId) || 0\<close>, then the test and the update.\<close>

definition shouldUpdateCursor :: "cursor_service \<Rightarrow> int \<Rightarrow> jsstring \<Rightarrow> bool \<times> cursor_service" where
  "shouldUpdateCursor svc now clientId =
     (let lastUpdate = (case cursorUpdateThrottle svc clientId of None \<Rightarrow> 0 | Some t \<Rightarrow> t)
      in if now - lastUpdate < throttleInterval then (False, svc)
         else (True, svc\<lparr>cursorUpdateThrottle := (cursorUpdateThrottle svc)(clientId \<mapsto> now)\<rparr>))"

definition storeLocalCursorData :: "cursor_service \<Rightarrow> jsstring \<Rightarrow> jsstring \<Rightarrow> cursor_data
    \<Rightarrow> cursor_service" where
  "storeLocalCursorData svc clientId channel cursorData =
     svc\<lparr>clientCursors := AList.update clientId cursorData (clientCursors svc),
         channelCursors :=
           AList.update channel
             (AList.update clientId cursorData
                (case map_of (channelCursors svc) channel of None \<Rightarrow> [] | Some m \<Rightarrow> m))
             (channelCursors svc)\<rparr>"

definition getLocalChannelCursors :: "cursor_service \<Rightarrow> jsstring \<Rightarrow> cursor_data list" where
  "getLocalChannelCursors svc channel =
     (case map_of (channelCursors svc) channel of None \<Rightarrow> [] | Some m \<Rightarrow> map snd m)"

definition broadcastCursorUpdate :: "cursor_service \<Rightarrow> int \<Rightarrow> jsstring \<Rightarrow> cursor_data \<Rightarrow> jsstring
    \<Rightarrow> cursor_payload router_call list" where
  "broadcastCursorUpdate svc now channel cursorData excludeClientId =
     (if cursor_isDistributed svc
      then [SendToChannel (ascii ''cursor:'' @ channel) (CursorUpdate channel cursorData now)
              (Some excludeClientId)]
      else [])"

definition broadcastCursorRemoval :: "cursor_service \<Rightarrow> int \<Rightarrow> jsstring \<Rightarrow> jsstring
    \<Rightarrow> cursor_payload router_call list" where
  "broadcastCursorRemoval svc now channel clientId =
     (if cursor_isDistributed svc
      then [SendToChannel (ascii ''cursor:'' @ channel) (CursorRemove channel clientId now) None]
      else [])"

subsection \<open>\<open>handleUpdateCursor\<close> of src/services/cursor-service.js\<close>



subsection \<open>The multi-mode version: modes, decorated metadata, sweeper\<close>

text \<open>The modes with their required fields (their names and descriptions are only listed
  to clients).\<close>

definition supportedModes :: "(jsstring \<times> jsstring list) list" where
  "supportedModes =
     [(ascii ''freeform'', [ascii ''x'', ascii ''y'']),
      (ascii ''table'', [ascii ''row'', ascii ''col'']),
      (ascii ''text'', [ascii ''position'']),
      (ascii ''canvas'', [ascii ''x'', ascii ''y''])]"

definition nonNegative :: "jsval \<Rightarrow> bool" where
  "nonNegative v = (case v of JNum n \<Rightarrow> n \<ge> 0 | other \<Rightarrow> False)"

definition validatePositionForMode :: "jsval \<Rightarrow> jsstring \<Rightarrow> bool" where
  "validatePositionForMode position mode =
     (case map_of supportedModes mode of
        None \<Rightarrow> False
      | Some requiredFields \<Rightarrow>
          if list_ex (\<lambda>field. getProperty position field = JUndefined
                             \<or> getProperty position field = JNull) requiredFields
          then False
          else if mode = ascii ''freeform'' \<or> mode = ascii ''canvas''
          then typeof (getProperty position (ascii ''x'')) = T_number
               \<and> typeof (getProperty position (ascii ''y'')) = T_number
          else if mode = ascii ''table''
          then typeof (getProperty position (ascii ''row'')) = T_number
               \<and> typeof (getProperty position (ascii ''col'')) = T_number
               \<and> nonNegative (getProperty position (ascii ''row''))
               \<and> nonNegative (getProperty position (ascii ''col''))
          else if mode = ascii ''text''
          then typeof (getProperty position (ascii ''position'')) = T_number
               \<and> nonNegative (getProperty position (ascii ''position''))
          else False)"

text \<open>\<open>clientId.substring(0, 2).toUpperCase()\<close>, exact on ASCII identifiers such as those
  the server generates.\<close>

definition toUpperCase :: "jsstring \<Rightarrow> jsstring" where
  "toUpperCase s = map (\<lambda>u. if 0x61 \<le> u \<and> u \<le> 0x7A then u - 0x20 else u) s"

definition generateInitials :: "jsstring \<Rightarrow> jsstring" where
  "generateInitials clientId = toUpperCase (take 2 clientId)"

definition colors :: "jsstring list" where
  "colors = map ascii [''#FF6B6B'', ''#4ECDC4'', ''#45B7D1'', ''#96CEB4'', ''#FECA57'',
     ''#FF9FF3'', ''#54A0FF'', ''#5F27CD'', ''#00D2D3'', ''#FF9F43'',
     ''#1DD1A1'', ''#F368E0'', ''#3742FA'', ''#2F3542'', ''#FF3838'']"

text \<open>\<open>hash = clientId.charCodeAt(i) + ((hash << 5) - hash)\<close>: the shift works on the
  32-bit signed value of \<open>hash\<close>, the sum and the difference are exact.\<close>

definition shiftLeft5 :: "int \<Rightarrow> int" where
  "shiftLeft5 h = sint (word_of_int (h * 32) :: 32 word)"

definition generateUserColor :: "jsstring \<Rightarrow> jsstring" where
  "generateUserColor clientId =
     (let hash = fold (\<lambda>u h. uint u + (shiftLeft5 h - h)) clientId 0
      in colors ! (nat \<bar>hash\<bar> mod length colors))"

definition jsJoin :: "jsstring \<Rightarrow> jsstring list \<Rightarrow> jsstring" where
  "jsJoin sep xs = (case xs of [] \<Rightarrow> [] | y # ys \<Rightarrow> y @ concat (map (\<lambda>z. sep @ z) ys))"

text \<open>\<open>{...metadata, mode, userInitials: metadata.userInitials || ..., userColor: ...}\<close>\<close>

definition decorate :: "(jsstring \<times> jsval) list \<Rightarrow> jsstring \<Rightarrow> jsstring \<Rightarrow> (jsstring \<times> jsval) list" where
  "decorate md mode clientId =
     AList.update (ascii ''userColor'')
       (if truthy (getProperty (JObj md) (ascii ''userColor''))
        then getProperty (JObj md) (ascii ''userColor'') else JStr (generateUserColor clientId))
       (AList.update (ascii ''userInitials'')
          (if truthy (getProperty (JObj md) (ascii ''userInitials''))
           then getProperty (JObj md) (ascii ''userInitials'') else JStr (generateInitials clientId))
          (AList.update (ascii ''mode'') (JStr mode) md))"

text \<open>\<open>server.js\<close> constructs the service without a store client of its own, so
  \<open>useRedis\<close> is false and cursor data is kept in the local maps.\<close>

definition storeCursorData :: "cursor_service \<Rightarrow> jsstring \<Rightarrow> jsstring \<Rightarrow> cursor_data
    \<Rightarrow> cursor_service" where
  "storeCursorData svc clientId channel cursorData =
     storeLocalCursorData svc clientId channel cursorData"

datatype js_error = TypeError

text \<open>A mode that names a property of \<open>Object.prototype\<close> passes the test
  \<open>!this.supportedModes[mode]\<close>; \<open>validatePositionForMode\<close> then iterates its
  \<open>requiredFields\<close>, which is \<open>undefined\<close>, and throws.\<close>

definition mm_handleUpdateCursor :: "cursor_service \<Rightarrow> int \<Rightarrow> jsstring \<Rightarrow> request
    \<Rightarrow> js_error + cursor_service \<times> cursor_payload router_call list" where
  "mm_handleUpdateCursor svc now clientId data =
     (let mode = (case req_mode data of None \<Rightarrow> ascii ''freeform'' | Some m \<Rightarrow> m)
      in case req_channel data of
           None \<Rightarrow> Inr (svc, cursor_sendError svc now clientId
                           (ascii ''Channel and position are required''))
         | Some channel \<Rightarrow>
             if channel = [] \<or> \<not> truthy (req_position data)
             then Inr (svc, cursor_sendError svc now clientId
                         (ascii ''Channel and position are required''))
             else
               (case lookupProperty supportedModes mode of
                  NoProperty \<Rightarrow>
                    Inr (svc, cursor_sendError svc now clientId
                           (ascii ''Unsupported cursor mode: '' @ mode
                            @ ascii ''. Supported modes: ''
                            @ jsJoin (ascii '', '') (map fst supportedModes)))
                | Inherited \<Rightarrow> Inl TypeError
                | Own requiredFields \<Rightarrow>
                    if \<not> validatePositionForMode (req_position data) mode
                    then Inr (svc, cursor_sendError svc now clientId
                                (ascii ''Invalid position for mode '' @ mode
                                 @ ascii ''. Required fields: ''
                                 @ jsJoin (ascii '', '') requiredFields))
                    else
                      (case shouldUpdateCursor svc now clientId of
                         (False, svc1) \<Rightarrow> Inr (svc1, [])
                       | (True, svc1) \<Rightarrow>
                           (let cursorData =
                                  \<lparr>cursor_clientId = clientId, cursor_channel = channel,
                                   cursor_position = req_position data,
                                   cursor_metadata =
                                     decorate (case req_metadata data of None \<Rightarrow> [] | Some m \<Rightarrow> m)
                                       mode clientId,
                                   cursor_timestamp = now\<rparr>
                            in Inr (storeCursorData svc1 clientId channel cursorData,
                                    broadcastCursorUpdate svc1 now channel cursorData clientId)))))"

text \<open>\<open>handleAction(clientId, 'update', data)\<close>, with its \<open>catch\<close>.\<close>

definition mm_update :: "cursor_service \<Rightarrow> int \<Rightarrow> jsstring \<Rightarrow> request
    \<Rightarrow> cursor_service \<times> cursor_payload router_call list" where
  "mm_update svc now clientId data =
     (case mm_handleUpdateCursor svc now clientId data of
        Inl error \<Rightarrow> (svc, cursor_sendError svc now clientId (ascii ''Internal server error''))
      | Inr result \<Rightarrow> result)"


definition removeStaleClientCursor :: "cursor_service \<Rightarrow> int \<Rightarrow> jsstring
    \<Rightarrow> cursor_service \<times> cursor_payload router_call list" where
  "removeStaleClientCursor svc now clientId =
     (case map_of (clientCursors svc) clientId of
        None \<Rightarrow> (svc\<lparr>cursorUpdateThrottle := (cursorUpdateThrottle svc)(clientId := None)\<rparr>, [])
      | Some clientCursor \<Rightarrow>
          (let channel = cursor_channel clientCursor;
               svc1 = svc\<lparr>clientCursors := AList.delete clientId (clientCursors svc)\<rparr>
           in case map_of (channelCursors svc1) channel of
                None \<Rightarrow>
                  (svc1\<lparr>cursorUpdateThrottle := (cursorUpdateThrottle svc1)(clientId := None)\<rparr>, [])
              | Some channelCursorMap \<Rightarrow>
                  (let remaining = AList.delete clientId channelCursorMap;
                       svc2 = svc1\<lparr>channelCursors :=
                                (if length remaining = 0
                                 then AList.delete channel (channelCursors svc1)
                                 else AList.update channel remaining (channelCursors svc1))\<rparr>
                   in (svc2\<lparr>cursorUpdateThrottle := (cursorUpdateThrottle svc2)(clientId := None)\<rparr>,
                       broadcastCursorRemoval svc2 now channel clientId))))"

text \<open>The sweep that the timer runs every \<open>cleanupInterval\<close> milliseconds, at instant
  \<open>now\<close>: it collects the clients whose entry in \<open>clientCursors\<close> is older than
  \<open>cursorTTL\<close>, then removes them one by one.\<close>

definition cleanupStaleData :: "cursor_service \<Rightarrow> int
    \<Rightarrow> cursor_service \<times> cursor_payload router_call list" where
  "cleanupStaleData svc now =
     (let staleCursors =
            map fst (filter (\<lambda>(clientId, cursorData). now - cursor_timestamp cursorData > cursorTTL)
                       (clientCursors svc))
      in fold (\<lambda>clientId (s, calls).
                 (fst (removeStaleClientCursor s now clientId),
                  calls @ snd (removeStaleClientCursor s now clientId)))
           staleCursors (svc, []))"

section \<open>Notions used by the properties\<close>

subsection \<open>The subscriber connection and the directory\<close>

text \<open>The number of listeners the subscriber connection holds on
  \<open>websocket:route:<channel>\<close>, and whether that connection exists and accepts commands.\<close>

definition routeListeners :: "router \<Rightarrow> jsstring \<Rightarrow> nat" where
  "routeListeners s channel =
     (case redisSubscriber s of
        None \<Rightarrow> 0
      | Some sb \<Rightarrow> count_list (listeners sb) (routeChannel channel))"

definition subscriberHealthy :: "router \<Rightarrow> bool" where
  "subscriberHealthy s =
     (case redisSubscriber s of None \<Rightarrow> False | Some sb \<Rightarrow> \<not> sub_failing sb)"

text \<open>The directory accepts commands (or there is none, in standalone mode).\<close>

definition directoryHealthy :: "router \<Rightarrow> bool" where
  "directoryHealthy s = (case redis (nodeManager s) of None \<Rightarrow> True | Some r \<Rightarrow> \<not> failing r)"

text \<open>The four kinds of directory entry that can name a client, as the store holds
  them for a client: its node, whether it is in this node's client set, its metadata and
  its channel set; and the channels each local client holds.\<close>

definition directoryEntries :: "router \<Rightarrow> jsstring
    \<Rightarrow> (jsstring option \<times> bool \<times> (jsstring \<times> jsstring) list \<times> jsstring list) option" where
  "directoryEntries s clientId =
     (case redis (nodeManager s) of
        None \<Rightarrow> None
      | Some r \<Rightarrow> Some (clientNode r clientId,
                         clientId \<in> set (nodeClients r (nodeId (nodeManager s))),
                         clientMetadata r clientId,
                         clientChannels r clientId))"

definition localChannels :: "router \<Rightarrow> (jsstring \<times> jsstring list) list" where
  "localChannels s = map (\<lambda>(clientId, client). (clientId, channels client)) (localClients s)"

text \<open>The hypotheses on a directory state for the subscribe/unsubscribe round trip: the
  client is in this node's client set and none of the node's clients is subscribed to the
  channel; and the directory has no edge between this node and the channel.\<close>

definition noLocalSubscriber :: "node_manager \<Rightarrow> jsstring \<Rightarrow> jsstring \<Rightarrow> bool" where
  "noLocalSubscriber nm clientId channel =
     (case redis nm of
        None \<Rightarrow> True
      | Some r \<Rightarrow> clientId \<in> set (nodeClients r (nodeId nm))
                 \<and> \<not> hasChannelClients r (nodeId nm) channel)"

definition noChannelEdge :: "node_manager \<Rightarrow> jsstring \<Rightarrow> bool" where
  "noChannelEdge nm channel =
     (case redis nm of
        None \<Rightarrow> True
      | Some r \<Rightarrow> nodeId nm \<notin> set (channelNodes r channel)
                 \<and> channel \<notin> set (nodeChannels r (nodeId nm)))"

definition servedBy :: "node_manager \<Rightarrow> jsstring \<Rightarrow> jsstring list" where
  "servedBy nm channel = (case redis nm of None \<Rightarrow> [] | Some r \<Rightarrow> channelNodes r channel)"

subsection \<open>Example states\<close>

text \<open>A store with no key, a subscriber connection with no listener, node \<open>a\<close> on that
  store, its router, and the process with no client and no command in flight.\<close>

definition emptyStore :: kvps where
  "emptyStore = \<lparr>failing = False, clientNode = (\<lambda>c. None), nodeClients = (\<lambda>n. []),
     clientMetadata = (\<lambda>c. []), clientChannels = (\<lambda>c. []), channelNodes = (\<lambda>ch. []),
     nodeChannels = (\<lambda>n. [])\<rparr>"

definition freshSubscriber :: subscriber where
  "freshSubscriber = \<lparr>sub_failing = False, listeners = []\<rparr>"

definition nodeA :: node_manager where
  "nodeA = \<lparr>nodeId = ascii ''a'', redis = Some emptyStore\<rparr>"

definition routerA :: router where
  "routerA = MessageRouter nodeA (Some freshSubscriber)"

definition gatewayA :: gateway where
  "gatewayA = \<lparr>messageRouter = routerA, awaitingStore = [], awaitingSubscriber = []\<rparr>"

text \<open>
  Clients \<open>c1\<close> and \<open>c2\<close> connect and their registrations complete. Then both send a frame
  that joins channel \<open>g\<close>, the second frame arriving while the first join awaits its first
  reply; the store answers the six \<open>sAdd\<close> in the order they were issued, then the
  subscriber connection answers.
\<close>

definition bothConnected :: gateway where
  "bothConnected =
     run gatewayA
       [Connect (ascii ''c1'') True [], StoreReply, StoreReply,
        Connect (ascii ''c2'') True [], StoreReply, StoreReply]"

definition bothJoining :: gateway where
  "bothJoining =
     run bothConnected
       [Join (ascii ''c1'') (ascii ''g''), Join (ascii ''c2'') (ascii ''g''),
        StoreReply, StoreReply, StoreReply, StoreReply, StoreReply, StoreReply]"

definition bothJoined :: gateway where
  "bothJoined = run bothJoining [SubscriberReply, SubscriberReply]"

text \<open>The same two joins, the second frame arriving when the first join has
  completed.\<close>

definition joinedInTurn :: gateway where
  "joinedInTurn =
     run bothConnected
       [Join (ascii ''c1'') (ascii ''g''), StoreReply, StoreReply, StoreReply, SubscriberReply,
        Join (ascii ''c2'') (ascii ''g''), StoreReply, StoreReply, StoreReply]"

text \<open>
  Client \<open>c1\<close> connects and its registration completes. It sends a frame that joins \<open>g\<close>
  and its socket closes while the join awaits its first reply. The store answers in the
  order of issue: the join's first \<open>sAdd\<close>, the \<open>sRem\<close> of the client's channel set, the
  join's second \<open>sAdd\<close>, the read of the node's clients, the join's third \<open>sAdd\<close>, the
  read of the client's channel set; the subscriber connection then answers the join's
  \<open>subscribe\<close>, and the store the three commands of \<open>unregisterClient\<close>, the last reply
  completing \<open>unregisterLocalClient\<close>.
\<close>

definition oneConnected :: gateway where
  "oneConnected = run gatewayA [Connect (ascii ''c1'') True [], StoreReply, StoreReply]"

definition closedWhileJoining :: gateway where
  "closedWhileJoining =
     run oneConnected
       [Join (ascii ''c1'') (ascii ''g''), Disconnect (ascii ''c1''),
        StoreReply, StoreReply, StoreReply, StoreReply, StoreReply, StoreReply,
        SubscriberReply, StoreReply, StoreReply, StoreReply]"

text \<open>The same join and close, the socket closing when the join has completed.\<close>

definition closedAfterJoining :: gateway where
  "closedAfterJoining =
     run oneConnected
       [Join (ascii ''c1'') (ascii ''g''), StoreReply, StoreReply, StoreReply, SubscriberReply,
        Disconnect (ascii ''c1''),
        StoreReply, StoreReply, StoreReply, StoreReply, StoreReply, SubscriberReply,
        StoreReply, StoreReply, StoreReply]"

text \<open>The directory after the node manager registered \<open>c1\<close>, subscribed it to \<open>g\<close>,
  unregistered it and registered \<open>c2\<close>; and the directory with \<open>c1\<close> registered only.\<close>

definition staleDirectory :: node_manager where
  "staleDirectory =
     registerClient
       (unregisterClient
          (subscribeClientToChannel (registerClient nodeA (ascii ''c1'') []) (ascii ''c1'') (ascii ''g''))
          (ascii ''c1''))
       (ascii ''c2'') []"

definition cleanDirectory :: node_manager where
  "cleanDirectory = registerClient nodeA (ascii ''c1'') []"

definition standaloneNode :: node_manager where
  "standaloneNode = \<lparr>nodeId = ascii ''a'', redis = None\<rparr>"

definition failingNode :: node_manager where
  "failingNode = \<lparr>nodeId = ascii ''a'', redis = Some (emptyStore\<lparr>failing := True\<rparr>)\<rparr>"

subsection \<open>Notions about the services\<close>

text \<open>A client has joined a chat channel when the channel is in its set; a join frame of a
  client for a channel; the message a successful send stamps; a channel's history and a
  channel's ring of reactions, empty when the map has no entry.\<close>

definition joined :: "chat_service \<Rightarrow> jsstring \<Rightarrow> jsstring \<Rightarrow> bool" where
  "joined svc clientId channel =
     (case chat_clientChannels svc clientId of None \<Rightarrow> False | Some cs \<Rightarrow> channel \<in> set cs)"

definition joinFrame :: "jsstring \<Rightarrow> jsstring
    \<Rightarrow> (int \<times> jsstring \<times> jsstring \<times> jsstring \<times> request) \<Rightarrow> bool" where
  "joinFrame clientId channel call =
     (case call of (now, messageId, c, action, data) \<Rightarrow>
        c = clientId \<and> action = ascii ''join'' \<and> req_channel data = Some channel)"

definition stamped :: "int \<Rightarrow> jsstring \<Rightarrow> jsstring \<Rightarrow> jsstring \<Rightarrow> jsstring \<Rightarrow> request
    \<Rightarrow> chat_msg" where
  "stamped now messageId clientId channel message data =
     \<lparr>msg_id = messageId, msg_clientId = clientId, msg_channel = channel, msg_message = message,
      msg_metadata = (case req_metadata data of None \<Rightarrow> [] | Some m \<Rightarrow> m), msg_timestamp = now\<rparr>"

definition chatHistory :: "chat_service \<Rightarrow> jsstring \<Rightarrow> chat_msg list" where
  "chatHistory svc channel = (case channelHistory svc channel of None \<Rightarrow> [] | Some h \<Rightarrow> h)"

definition reactionRing :: "reaction_service \<Rightarrow> jsstring \<Rightarrow> reaction list" where
  "reactionRing svc channel = (case reactionHistory svc channel of None \<Rightarrow> [] | Some h \<Rightarrow> h)"

text \<open>The reaction a send records for an emoji of the catalog with the given effect, and
  whether the calls made on the router hold an error frame for the client.\<close>

definition reactionOf :: "int \<Rightarrow> jsstring \<Rightarrow> jsstring \<Rightarrow> jsstring \<Rightarrow> jsstring \<Rightarrow> jsstring
    \<Rightarrow> request \<Rightarrow> reaction" where
  "reactionOf now reactionId clientId channel emoji effect data =
     \<lparr>reaction_id = reactionId, reaction_clientId = clientId, reaction_channel = channel,
      reaction_emoji = emoji, reaction_effect = Some effect,
      reaction_position = (if req_position data = JUndefined then JNull else req_position data),
      reaction_metadata = (case req_metadata data of None \<Rightarrow> [] | Some m \<Rightarrow> m),
      reaction_timestamp = now\<rparr>"

definition reactionRejected :: "jsstring \<Rightarrow> reaction_payload router_call list \<Rightarrow> bool" where
  "reactionRejected clientId calls =
     list_ex (\<lambda>call. case call of
                 SendToLocalClient c (ReactionError e) \<Rightarrow> c = clientId
               | other \<Rightarrow> False) calls"









subsection \<open>Example frames and service states\<close>

definition emptyRequest :: request where
  "emptyRequest =
     \<lparr>req_channel = None, req_message = JUndefined, req_metadata = None, req_limit = None,
      req_position = JUndefined, req_mode = None, req_emoji = None\<rparr>"

definition joinG :: request where
  "joinG = emptyRequest\<lparr>req_channel := Some (ascii ''g'')\<rparr>"

definition sendHi :: request where
  "sendHi = emptyRequest\<lparr>req_channel := Some (ascii ''g''), req_message := JStr (ascii ''hi'')\<rparr>"

definition joinedChat :: chat_service where
  "joinedChat = fst (handleJoinChannel (ChatService True) 1 (ascii ''c1'') joinG)"

definition hiMessage :: chat_msg where
  "hiMessage = stamped 5 (ascii ''m1'') (ascii ''c1'') (ascii ''g'') (ascii ''hi'') sendHi"

definition fullChat :: chat_service where
  "fullChat = (ChatService True)\<lparr>channelHistory := [ascii ''g'' \<mapsto> replicate 100 hiMessage]\<rparr>"

definition sendHeart :: request where
  "sendHeart = emptyRequest\<lparr>req_channel := Some (ascii ''g''), req_emoji := Some [0x2764, 0xFE0F]\<rparr>"

definition heartReaction :: reaction where
  "heartReaction =
     reactionOf 5 (ascii ''r1'') (ascii ''c1'') (ascii ''g'') [0x2764, 0xFE0F] (ascii ''pulse-red'')
       sendHeart"

definition fullRing :: reaction_service where
  "fullRing = (ReactionService True)\<lparr>reactionHistory := [ascii ''g'' \<mapsto> replicate 50 heartReaction]\<rparr>"

definition position12 :: jsval where
  "position12 = JObj [(ascii ''x'', JNum 1), (ascii ''y'', JNum 2)]"

definition updateA :: request where
  "updateA = emptyRequest\<lparr>req_channel := Some (ascii ''a''), req_position := position12\<rparr>"

definition updateB :: request where
  "updateB = emptyRequest\<lparr>req_channel := Some (ascii ''b''), req_position := position12\<rparr>"

definition updateNoPosition :: request where
  "updateNoPosition = emptyRequest\<lparr>req_channel := Some (ascii ''a'')\<rparr>"


text \<open>For the multi-mode version: an update in mode \<open>table\<close> with a row and a column, one
  in mode \<open>table\<close> with \<open>x\<close> and \<open>y\<close>, and the service after the update of \<open>c1\<close> at
  instant 1000.\<close>

definition updateCell :: request where
  "updateCell =
     emptyRequest\<lparr>req_channel := Some (ascii ''a''), req_mode := Some (ascii ''table''),
       req_position := JObj [(ascii ''row'', JNum 3), (ascii ''col'', JNum 4)]\<rparr>"

definition updateCellXY :: request where
  "updateCellXY =
     emptyRequest\<lparr>req_channel := Some (ascii ''a''), req_mode := Some (ascii ''table''),
       req_position := position12\<rparr>"


text \<open>The multi-mode service after client \<open>c1\<close> moved its cursor in channel \<open>a\<close> at
  instant 1000 and in channel \<open>b\<close> at instant 2000, then after the sweeps at 40000 and at
  50000.\<close>

definition movedCursor :: cursor_service where
  "movedCursor =
     fst (mm_update (fst (mm_update (CursorService True) 1000 (ascii ''c1'') updateA))
            2000 (ascii ''c1'') updateB)"

definition firstSweep :: "cursor_service \<times> cursor_payload router_call list" where
  "firstSweep = cleanupStaleData movedCursor 40000"

definition secondSweep :: "cursor_service \<times> cursor_payload router_call list" where
  "secondSweep = cleanupStaleData (fst firstSweep) 50000"

section \<open>Properties of the directory and the router\<close>

lemmas example_defs = emptyStore_def freshSubscriber_def nodeA_def routerA_def
  staleDirectory_def cleanDirectory_def standaloneNode_def failingNode_def

lemmas router_defs = MessageRouter_def setupNodeMessageHandlers_def
  registerClient_def unregisterClient_def subscribeClientToChannel_def
  unsubscribeClientFromChannel_def hasChannelClients_def command_def sAdd_def sRem_def
  set_add_def set_delete_def hSet_def routeChannel_def directChannel_def broadcastAll_def

subsection \<open>The lookup of the nodes that serve a channel\<close>

lemma getNodesForChannel_eq:
  "getNodesForChannel nm c =
     (case redis nm of None \<Rightarrow> [nodeId nm]
      | Some r \<Rightarrow> if failing r \<or> channelNodes r c = [] then [nodeId nm] else channelNodes r c)"
  by (simp add: getNodesForChannel_def command_def split: option.splits)

lemma getNodesForChannel_nonempty: "getNodesForChannel nm c \<noteq> []"
  by (simp add: getNodesForChannel_eq split: option.splits)

text \<open>
  Claim C9. For every channel, \<open>getNodesForChannel\<close> returns a non-empty list: it is the
  singleton of this node's own identifier when there is no store (standalone mode), when the
  lookup raises, and when the directory's set for the channel is empty, and the directory's
  set otherwise. Hence \<open>sendToChannel\<close> never takes its branch for an empty list.
\<close>

theorem getNodesForChannel_never_empty:
  "getNodesForChannel nm c =
     (case redis nm of None \<Rightarrow> [nodeId nm]
      | Some r \<Rightarrow> if failing r \<or> channelNodes r c = [] then [nodeId nm] else channelNodes r c)
   \<and> getNodesForChannel nm c \<noteq> []
   \<and> sendToChannel s c m ex now \<noteq> NoNodesFound"
proof -
  have "sendToChannel s c m ex now \<noteq> NoNodesFound"
    using getNodesForChannel_nonempty [of "nodeManager s" c]
    by (auto simp: sendToChannel_def command_def Let_def split: option.splits)
  then show ?thesis
    using getNodesForChannel_eq getNodesForChannel_nonempty by blast
qed

theorem getNodesForChannel_never_empty_witness:
  "getNodesForChannel standaloneNode (ascii ''q'') = [ascii ''a'']
   \<and> getNodesForChannel failingNode (ascii ''q'') = [ascii ''a'']
   \<and> getNodesForChannel nodeA (ascii ''q'') = [ascii ''a'']
   \<and> sendToChannel routerA (ascii ''q'') (ascii ''hi'') None 7 \<noteq> NoNodesFound"
  using getNodesForChannel_never_empty [of standaloneNode "ascii ''q''" routerA "ascii ''hi''" None 7]
    getNodesForChannel_never_empty [of failingNode "ascii ''q''" routerA "ascii ''hi''" None 7]
    getNodesForChannel_never_empty [of nodeA "ascii ''q''" routerA "ascii ''hi''" None 7]
  by (simp add: example_defs)

text \<open>
  Claim C1, as amended. When \<open>sendToChannel\<close> queries a working directory and the set of
  nodes serving the channel is empty, the lookup answers with this node alone and the
  message is not dropped: one envelope is published on \<open>websocket:route:<channel>\<close>, with
  \<open>targetNodes\<close> holding this node's identifier only.
\<close>

theorem sendToChannel_publishes_to_self:
  assumes "redis (nodeManager s) = Some r" and "\<not> failing r" and "channelNodes r c = []"
  shows "sendToChannel s c m ex now =
           Published (routeChannel c)
             \<lparr>env_type = CHANNEL_MESSAGE, env_channel = Some c, env_clientId = None,
              env_message = m, env_excludeClientId = ex,
              env_fromNode = nodeId (nodeManager s), env_targetNode = None,
              env_targetNodes = Some [nodeId (nodeManager s)], env_timestamp = now\<rparr>"
  using assms
  by (simp add: sendToChannel_def redisPublisher_def getNodesForChannel_def command_def)

theorem sendToChannel_publishes_to_self_witness:
  "redis (nodeManager routerA) = Some emptyStore \<and> \<not> failing emptyStore
   \<and> channelNodes emptyStore (ascii ''q'') = []
   \<and> sendToChannel routerA (ascii ''q'') (ascii ''hi'') None 7 =
       Published (routeChannel (ascii ''q''))
         \<lparr>env_type = CHANNEL_MESSAGE, env_channel = Some (ascii ''q''), env_clientId = None,
          env_message = ascii ''hi'', env_excludeClientId = None,
          env_fromNode = nodeId (nodeManager routerA), env_targetNode = None,
          env_targetNodes = Some [nodeId (nodeManager routerA)], env_timestamp = 7\<rparr>"
proof -
  have a: "redis (nodeManager routerA) = Some emptyStore"
    by (simp add: example_defs MessageRouter_def setupNodeMessageHandlers_def)
  have b: "\<not> failing emptyStore" and c: "channelNodes emptyStore (ascii ''q'') = []"
    by (simp_all add: emptyStore_def)
  from sendToChannel_publishes_to_self [OF a b c] a b c show ?thesis by simp
qed

text \<open>
  The claim as stated fails: on node \<open>a\<close> with an empty working store, no node serves
  channel \<open>q\<close>, and the send publishes an envelope on \<open>websocket:route:q\<close>.
\<close>

theorem sendToChannel_not_dropped:
  "channelNodes emptyStore (ascii ''q'') = []
   \<and> sendToChannel routerA
        (ascii ''q'') (ascii ''hi'') None 7 =
       Published (ascii ''websocket:route:q'')
             \<lparr>env_type = CHANNEL_MESSAGE, env_channel = Some (ascii ''q''), env_clientId = None,
              env_message = ascii ''hi'', env_excludeClientId = None,
              env_fromNode = ascii ''a'', env_targetNode = None,
              env_targetNodes = Some [ascii ''a''], env_timestamp = 7\<rparr>"
  by (simp add: example_defs MessageRouter_def setupNodeMessageHandlers_def
      sendToChannel_def redisPublisher_def getNodesForChannel_def command_def routeChannel_def ascii_def)


subsection \<open>Operations in flight\<close>

lemmas inflight_defs = run_def andThen_def issue_def thisNode_def backTo_def
  registerLocalClient_def registerClient_call_def registerClient_149_def registerClient_152_def
  unregisterClient_call_def unregisterClient_182_def unregisterClient_185_def
  subscribeClientToChannel_call_def subscribeClientToChannel_204_def
  subscribeClientToChannel_207_def unsubscribeClientFromChannel_call_def
  unsubscribeClientFromChannel_226_def unsubscribeClientFromChannel_229_def
  unsubscribeClientFromChannel_231_def unsubscribeClientFromChannel_240_def
  subscribeToRedisChannel_def subscribeToRedisChannel_246_def unsubscribeFromRedisChannel_def
  unsubscribeFromRedisChannel_263_def subscribeToChannel_77_def subscribeToChannel_def
  stillNeeded_def unsubscribeFromChannel_95_def unsubscribeFromChannel_def
  unregisterLocalClient_52_def unregisterLocalClient_def

lemmas flight_examples = gatewayA_def bothConnected_def bothJoining_def bothJoined_def
  joinedInTurn_def oneConnected_def closedWhileJoining_def closedAfterJoining_def

text \<open>
  Claim C4. The code departs from it. \<open>subscribeToChannel\<close> (line 77) and
  \<open>subscribeToRedisChannel\<close> (line 241) test \<open>subscribedChannels.has(channel)\<close> before
  the \<open>subscribe\<close> of line 245 is awaited, and the channel is added to the set on line 246,
  after the reply. Clients \<open>c1\<close> and \<open>c2\<close> of node \<open>a\<close> join channel \<open>g\<close>, the frame of
  \<open>c2\<close> arriving while the join of \<open>c1\<close> still awaits its first reply. Both joins find
  the channel not yet in \<open>subscribedChannels\<close> and both issue \<open>subscribe\<close>: two are in
  flight at once. When every reply has come and nothing is in flight, on a subscriber
  connection that accepts every command, both clients hold \<open>g\<close>, \<open>subscribedChannels\<close> is
  \<open>{g}\<close>, and the subscriber connection holds two listeners on \<open>websocket:route:g\<close>, not
  one. And when the socket of \<open>c1\<close> closes while its join is in flight, the join's
  \<open>subscribe\<close> follows the test of \<open>unsubscribeFromRedisChannel\<close>: in the end no local
  client holds \<open>g\<close> and the listener on \<open>websocket:route:g\<close> is still there. When the
  second join starts after the first has completed, there is one listener.
\<close>

theorem joins_in_flight_subscribe_twice:
  "awaitingStore bothConnected = [] \<and> awaitingSubscriber bothConnected = []
   \<and> localChannels (messageRouter bothConnected) = [(ascii ''c1'', []), (ascii ''c2'', [])]
   \<and> routeListeners (messageRouter bothConnected) (ascii ''g'') = 0
   \<and> awaitingStore bothJoining = []
   \<and> awaitingSubscriber bothJoining =
        [Subscribe_route (ascii ''g''), Subscribe_route (ascii ''g'')]
   \<and> awaitingStore bothJoined = [] \<and> awaitingSubscriber bothJoined = []
   \<and> subscriberHealthy (messageRouter bothJoined)
   \<and> localChannels (messageRouter bothJoined) =
        [(ascii ''c1'', [ascii ''g'']), (ascii ''c2'', [ascii ''g''])]
   \<and> subscribedChannels (messageRouter bothJoined) = [ascii ''g'']
   \<and> routeListeners (messageRouter bothJoined) (ascii ''g'') = 2
   \<and> awaitingStore closedWhileJoining = [] \<and> awaitingSubscriber closedWhileJoining = []
   \<and> localChannels (messageRouter closedWhileJoining) = []
   \<and> routeListeners (messageRouter closedWhileJoining) (ascii ''g'') = 1
   \<and> awaitingStore joinedInTurn = [] \<and> awaitingSubscriber joinedInTurn = []
   \<and> localChannels (messageRouter joinedInTurn) =
        [(ascii ''c1'', [ascii ''g'']), (ascii ''c2'', [ascii ''g''])]
   \<and> routeListeners (messageRouter joinedInTurn) (ascii ''g'') = 1"
  by (simp add: flight_examples example_defs inflight_defs router_defs routeListeners_def
      subscriberHealthy_def localChannels_def ascii_def)

text \<open>
  Claim C5. The code departs from it. \<open>unregisterClient\<close> deletes the client's node, its
  membership of the node's client set and its metadata, never its channel set
  (\<open>websocket:client:<id>:channels\<close>): that set is emptied only by the \<open>sRem\<close> of line 223,
  one per channel the loop of \<open>unregisterLocalClient\<close> finds in the client's local set.
  Client \<open>c1\<close> is registered on node \<open>a\<close> with a store that accepts every command. It
  sends a frame that joins \<open>g\<close>, and its socket closes while the join awaits its first
  reply. The \<open>sRem\<close> of the channel set is issued before the join's \<open>sAdd\<close> of line 207,
  and the scan of \<open>unsubscribeClientFromChannel\<close> then reads \<open>g\<close> in the set of \<open>c1\<close> and
  keeps the node's edges. When \<open>unregisterLocalClient\<close> has completed and nothing is in
  flight, the client is gone from \<open>localClients\<close>, its node, its membership and its
  metadata are cleared, and the directory still holds its channel set \<open>{g}\<close> and node \<open>a\<close>
  in the node set of \<open>g\<close>. A second \<open>unregisterLocalClient\<close> returns at once and changes
  nothing. When the socket closes after the join has completed, no entry is left.
\<close>

theorem close_during_join_leaves_channel_set:
  "awaitingStore oneConnected = [] \<and> awaitingSubscriber oneConnected = []
   \<and> localChannels (messageRouter oneConnected) = [(ascii ''c1'', [])]
   \<and> directoryEntries (messageRouter oneConnected) (ascii ''c1'') =
        Some (Some (ascii ''a''), True, [], [])
   \<and> awaitingStore closedWhileJoining = [] \<and> awaitingSubscriber closedWhileJoining = []
   \<and> directoryHealthy (messageRouter closedWhileJoining)
   \<and> localClients (messageRouter closedWhileJoining) = []
   \<and> directoryEntries (messageRouter closedWhileJoining) (ascii ''c1'') =
        Some (None, False, [], [ascii ''g''])
   \<and> servedBy (nodeManager (messageRouter closedWhileJoining)) (ascii ''g'') = [ascii ''a'']
   \<and> unregisterLocalClient closedWhileJoining (ascii ''c1'') = (Returned, closedWhileJoining)
   \<and> awaitingStore closedAfterJoining = [] \<and> awaitingSubscriber closedAfterJoining = []
   \<and> localClients (messageRouter closedAfterJoining) = []
   \<and> directoryEntries (messageRouter closedAfterJoining) (ascii ''c1'') =
        Some (None, False, [], [])
   \<and> servedBy (nodeManager (messageRouter closedAfterJoining)) (ascii ''g'') = []"
  by (simp add: flight_examples example_defs inflight_defs router_defs directoryHealthy_def
      directoryEntries_def servedBy_def localChannels_def ascii_def)

subsection \<open>Subscribing and unsubscribing in the directory\<close>

lemma set_delete_add: "x \<notin> set xs \<Longrightarrow> set_delete (set_add xs x) x = xs"
  by (simp add: set_delete_def set_add_def)

text \<open>
  Claim C6, as amended. For every directory state in which the client is registered on this
  node, no client of this node is subscribed to the channel, and the directory holds no edge
  between this node and the channel (the node is not in the channel's node set and the
  channel is not in the node's channel set), \<open>subscribeClientToChannel\<close> followed by
  \<open>unsubscribeClientFromChannel\<close> returns the directory to that state: the client's channel
  set, the node's channel set and the channel's node set are restored.
\<close>

theorem subscribe_unsubscribe_restores_directory:
  assumes "noLocalSubscriber nm clientId channel" and "noChannelEdge nm channel"
  shows "unsubscribeClientFromChannel (subscribeClientToChannel nm clientId channel) clientId channel
           = nm"
proof (cases "redis nm")
  case None
  then show ?thesis
    by (simp add: subscribeClientToChannel_def unsubscribeClientFromChannel_def)
next
  case (Some r)
  show ?thesis
  proof (cases "failing r")
    case True
    then show ?thesis using Some
      by (simp add: subscribeClientToChannel_def unsubscribeClientFromChannel_def command_def Let_def)
  next
    case False
    have reg: "clientId \<in> set (nodeClients r (nodeId nm))"
      and nos: "\<not> hasChannelClients r (nodeId nm) channel"
      and e1: "nodeId nm \<notin> set (channelNodes r channel)"
      and e2: "channel \<notin> set (nodeChannels r (nodeId nm))"
      using assms Some by (simp_all add: noLocalSubscriber_def noChannelEdge_def)
    have c: "channel \<notin> set (clientChannels r clientId)"
      using reg nos by (auto simp: hasChannelClients_def list_ex_iff)
    define r0 where "r0 = r\<lparr>channelNodes := (channelNodes r)
                   (channel := sAdd (channelNodes r channel) (nodeId nm)),
                nodeChannels := (nodeChannels r)
                   (nodeId nm := sAdd (nodeChannels r (nodeId nm)) channel),
                clientChannels := (clientChannels r)
                   (clientId := sAdd (clientChannels r clientId) channel)\<rparr>"
    have s: "subscribeClientToChannel nm clientId channel = nm\<lparr>redis := Some r0\<rparr>"
      using Some False by (simp add: subscribeClientToChannel_def command_def r0_def)
    define r1 where "r1 = r0\<lparr>clientChannels := (clientChannels r0)
                      (clientId := sRem (clientChannels r0 clientId) channel)\<rparr>"
    have cc: "clientChannels r1 = clientChannels r"
      using c by (simp add: r1_def r0_def sAdd_def sRem_def set_delete_add)
    have nc: "nodeClients r1 = nodeClients r" by (simp add: r1_def r0_def)
    have no: "\<not> hasChannelClients r1 (nodeId nm) channel"
      using nos by (simp add: hasChannelClients_def cc nc)
    have "r1\<lparr>channelNodes := (channelNodes r1)
                 (channel := sRem (channelNodes r1 channel) (nodeId nm)),
             nodeChannels := (nodeChannels r1)
                 (nodeId nm := sRem (nodeChannels r1 (nodeId nm)) channel)\<rparr> = r"
      using c e1 e2 by (simp add: r1_def r0_def sAdd_def sRem_def set_delete_add)
    moreover have f0: "\<not> failing r0" using False by (simp add: r0_def)
    ultimately have "unsubscribeClientFromChannel (nm\<lparr>redis := Some r0\<rparr>) clientId channel
        = nm\<lparr>redis := Some r\<rparr>"
      using no by (simp add: unsubscribeClientFromChannel_def command_def Let_def r1_def)
    moreover have "nm\<lparr>redis := Some r\<rparr> = nm" using Some by simp
    ultimately show ?thesis unfolding s by simp
  qed
qed

theorem subscribe_unsubscribe_restores_directory_witness:
  "noLocalSubscriber cleanDirectory (ascii ''c1'') (ascii ''g'')
   \<and> noChannelEdge cleanDirectory (ascii ''g'')
   \<and> servedBy (subscribeClientToChannel cleanDirectory (ascii ''c1'') (ascii ''g'')) (ascii ''g'')
       = [ascii ''a'']
   \<and> unsubscribeClientFromChannel
        (subscribeClientToChannel cleanDirectory (ascii ''c1'') (ascii ''g''))
        (ascii ''c1'') (ascii ''g'') = cleanDirectory"
proof -
  have a: "noLocalSubscriber cleanDirectory (ascii ''c1'') (ascii ''g'')"
    by (simp add: noLocalSubscriber_def example_defs router_defs ascii_def)
  have b: "noChannelEdge cleanDirectory (ascii ''g'')"
    by (simp add: noChannelEdge_def example_defs router_defs ascii_def)
  have c: "servedBy (subscribeClientToChannel cleanDirectory (ascii ''c1'') (ascii ''g'')) (ascii ''g'')
       = [ascii ''a'']"
    by (simp add: servedBy_def example_defs router_defs ascii_def)
  from subscribe_unsubscribe_restores_directory [OF a b] a b c show ?thesis by simp
qed

text \<open>
  The claim as stated fails on a directory that still holds the node's edge to the channel
  though none of its clients is subscribed: the node manager reaches such a state by
  registering \<open>c1\<close>, subscribing it to \<open>g\<close>, unregistering it and registering \<open>c2\<close>. There
  the round trip of \<open>c2\<close> removes the edge.
\<close>

theorem subscribe_unsubscribe_removes_stale_edge:
  "noLocalSubscriber staleDirectory (ascii ''c2'') (ascii ''g'')
   \<and> unsubscribeClientFromChannel
        (subscribeClientToChannel staleDirectory (ascii ''c2'') (ascii ''g''))
        (ascii ''c2'') (ascii ''g'') \<noteq> staleDirectory"
proof -
  let ?after = "unsubscribeClientFromChannel
        (subscribeClientToChannel staleDirectory (ascii ''c2'') (ascii ''g''))
        (ascii ''c2'') (ascii ''g'')"
  have pre: "noLocalSubscriber staleDirectory (ascii ''c2'') (ascii ''g'')"
    by (simp add: noLocalSubscriber_def example_defs router_defs ascii_def)
  have before: "servedBy staleDirectory (ascii ''g'') = [ascii ''a'']"
    by (simp add: servedBy_def example_defs router_defs ascii_def)
  have after: "servedBy ?after (ascii ''g'') = []"
    by (simp add: servedBy_def example_defs router_defs ascii_def Let_def)
  have "?after \<noteq> staleDirectory"
  proof
    assume "?after = staleDirectory"
    then have "servedBy ?after (ascii ''g'') = servedBy staleDirectory (ascii ''g'')" by simp
    then show False unfolding before after by simp
  qed
  then show ?thesis using pre by simp
qed

section \<open>Properties of the services\<close>

lemmas request_defs = emptyRequest_def joinG_def sendHi_def sendHeart_def position12_def
  updateA_def updateB_def updateNoPosition_def updateCell_def updateCellXY_def

subsection \<open>Chat\<close>

lemma action_names [simp]:
  "ascii ''join'' \<noteq> ascii ''leave''" "ascii ''join'' \<noteq> ascii ''send''"
  "ascii ''join'' \<noteq> ascii ''history''" "ascii ''leave'' \<noteq> ascii ''join''"
  "ascii ''send'' \<noteq> ascii ''join''" "ascii ''history'' \<noteq> ascii ''join''"
  "ascii ''leave'' \<noteq> ascii ''send''" "ascii ''send'' \<noteq> ascii ''leave''"
  "ascii ''leave'' \<noteq> ascii ''history''" "ascii ''history'' \<noteq> ascii ''leave''"
  "ascii ''send'' \<noteq> ascii ''history''" "ascii ''history'' \<noteq> ascii ''send''"
  by (simp_all add: ascii_def)

lemma handleSendMessage_joined:
  "joined (fst (handleSendMessage svc now mid k data)) C c = joined svc C c"
  by (auto simp: handleSendMessage_def joined_def addToChannelHistory_def Let_def
      split: option.splits jsval.splits)

lemma handleGetHistory_joined:
  "joined (fst (handleGetHistory svc now k data)) C c = joined svc C c"
  by (auto simp: handleGetHistory_def joined_def split: option.splits)

lemma handleLeaveChannel_joined:
  "joined (fst (handleLeaveChannel svc now k data)) C c \<Longrightarrow> joined svc C c"
  by (auto simp: handleLeaveChannel_def joined_def Let_def set_delete_def
      split: option.splits if_splits)

lemma handleJoinChannel_joined:
  "joined (fst (handleJoinChannel svc now k data)) C c \<Longrightarrow>
   joined svc C c \<or> (k = C \<and> req_channel data = Some c)"
  by (auto simp: handleJoinChannel_def joined_def Let_def set_add_def
      split: option.splits if_splits)

lemma chat_handleAction_joined:
  "joined (fst (chat_handleAction svc now mid k action data)) C c \<Longrightarrow>
   joined svc C c \<or> joinFrame C c (now, mid, k, action, data)"
  using handleJoinChannel_joined [of svc now k data C c]
    handleLeaveChannel_joined [of svc now k data C c]
  by (auto simp: chat_handleAction_def joinFrame_def handleSendMessage_joined
      handleGetHistory_joined split: if_splits)

lemma chat_run_joined:
  "joined (chat_run svc calls) C c \<Longrightarrow> joined svc C c \<or> list_ex (joinFrame C c) calls"
proof (induction calls arbitrary: svc)
  case Nil
  then show ?case by simp
next
  case (Cons call calls)
  obtain now mid k action data where call: "call = (now, mid, k, action, data)"
    by (cases call) auto
  from Cons.prems
  have "joined (chat_run (fst (chat_handleAction svc now mid k action data)) calls) C c"
    by (simp add: call)
  from Cons.IH [OF this] show ?case
    using chat_handleAction_joined [of svc now mid k action data C c] by (auto simp: call)
qed

lemma handleSendMessage_not_joined:
  assumes "chat_messageRouter svc" "req_channel data = Some c" "\<not> joined svc C c"
  shows "\<exists>e. handleSendMessage svc now mid C data = (svc, [SendToClient C (ChatError e now)])"
  using assms
  by (auto simp: handleSendMessage_def joined_def chat_sendError_def chat_sendToClient_def
      split: option.splits jsval.splits)

lemma handleSendMessage_bad_text:
  assumes "chat_messageRouter svc"
    and "\<forall>m. req_message data = JStr m \<longrightarrow> length m = 0 \<or> length m > 1000"
  shows "\<exists>e. handleSendMessage svc now mid C data = (svc, [SendToClient C (ChatError e now)])"
  using assms
  by (auto simp: handleSendMessage_def chat_sendError_def chat_sendToClient_def
      split: option.splits jsval.splits)

lemma handleSendMessage_ok:
  assumes "chat_messageRouter svc" "req_channel data = Some c" "c \<noteq> []" "joined svc C c"
    and "req_message data = JStr m" "1 \<le> length m" "length m \<le> 1000"
  shows "handleSendMessage svc now mid C data =
           (addToChannelHistory svc c (stamped now mid C c m data),
            [SendToChannel c (ChatMessage c (stamped now mid C c m data) now) None,
             SendToClient C (ChatSent mid c now)])"
  using assms
  by (auto simp: handleSendMessage_def joined_def chat_sendToClient_def broadcastMessage_def
      chat_isDistributed_def stamped_def Let_def split: option.splits)

lemma addToChannelHistory_history:
  "chatHistory (addToChannelHistory svc c msg) c' =
     (if c' = c
      then drop (length (chatHistory svc c) + 1 - chat_maxHistorySize) (chatHistory svc c @ [msg])
      else chatHistory svc c')"
  by (simp add: addToChannelHistory_def chatHistory_def Let_def)

text \<open>
  Claim C3. With the router in place: a client's channel set holds a channel only after a
  join frame of that client for that channel; a send by a client that has not joined the
  channel, or whose message is not a string of 1 to 1000 characters, is answered with one
  error frame to the sender and changes nothing, so nothing is stored or broadcast; and a
  send by a client that has joined, with such a string, stamps the message with its
  identifier, client, channel, text, metadata and timestamp, appends it to the channel's
  history (kept to the last 100), passes it to \<open>sendToChannel\<close> for the channel and sends
  the client a \<open>sent\<close> acknowledgement.
\<close>

theorem chat_send_requires_join:
  assumes "chat_messageRouter svc"
  shows "(joined (chat_run (ChatService router) calls) C c \<longrightarrow> list_ex (joinFrame C c) calls)
   \<and> (req_channel data = Some c \<and> \<not> joined svc C c \<longrightarrow>
        (\<exists>e. handleSendMessage svc now mid C data = (svc, [SendToClient C (ChatError e now)])))
   \<and> ((\<forall>m. req_message data = JStr m \<longrightarrow> length m = 0 \<or> length m > 1000) \<longrightarrow>
        (\<exists>e. handleSendMessage svc now mid C data = (svc, [SendToClient C (ChatError e now)])))
   \<and> (req_channel data = Some c \<and> c \<noteq> [] \<and> joined svc C c
        \<and> req_message data = JStr m \<and> 1 \<le> length m \<and> length m \<le> 1000 \<longrightarrow>
        handleSendMessage svc now mid C data =
           (addToChannelHistory svc c (stamped now mid C c m data),
            [SendToChannel c (ChatMessage c (stamped now mid C c m data) now) None,
             SendToClient C (ChatSent mid c now)])
        \<and> chatHistory (addToChannelHistory svc c (stamped now mid C c m data)) c
            = drop (length (chatHistory svc c) + 1 - 100)
                (chatHistory svc c @ [stamped now mid C c m data]))"
proof -
  have "\<not> joined (ChatService router) C c"
    by (simp add: joined_def ChatService_def)
  then have a: "joined (chat_run (ChatService router) calls) C c \<longrightarrow> list_ex (joinFrame C c) calls"
    using chat_run_joined [of "ChatService router" calls C c] by blast
  show ?thesis
    using a handleSendMessage_not_joined [OF assms, of data c C now mid]
      handleSendMessage_bad_text [OF assms, of data now mid C]
      handleSendMessage_ok [OF assms, of data c C m now mid]
    by (simp add: addToChannelHistory_history chat_maxHistorySize_def)
qed

theorem chat_send_requires_join_witness:
  "joined (chat_run (ChatService True) [(1, ascii ''m0'', ascii ''c1'', ascii ''join'', joinG)])
      (ascii ''c1'') (ascii ''g'')
   \<and> list_ex (joinFrame (ascii ''c1'') (ascii ''g''))
        [(1, ascii ''m0'', ascii ''c1'', ascii ''join'', joinG)]
   \<and> joined joinedChat (ascii ''c1'') (ascii ''g'')
   \<and> handleSendMessage joinedChat 5 (ascii ''m1'') (ascii ''c1'') sendHi =
       (addToChannelHistory joinedChat (ascii ''g'') hiMessage,
        [SendToChannel (ascii ''g'') (ChatMessage (ascii ''g'') hiMessage 5) None,
         SendToClient (ascii ''c1'') (ChatSent (ascii ''m1'') (ascii ''g'') 5)])
   \<and> chatHistory (addToChannelHistory joinedChat (ascii ''g'') hiMessage) (ascii ''g'') = [hiMessage]
   \<and> \<not> joined (ChatService True) (ascii ''c1'') (ascii ''g'')
   \<and> handleSendMessage (ChatService True) 5 (ascii ''m1'') (ascii ''c1'') sendHi =
       (ChatService True,
        [SendToClient (ascii ''c1'')
           (ChatError (ascii ''You must join the channel before sending messages'') 5)])
   \<and> handleSendMessage joinedChat 5 (ascii ''m1'') (ascii ''c1'') (sendHi\<lparr>req_message := JNum 7\<rparr>) =
       (joinedChat,
        [SendToClient (ascii ''c1'')
           (ChatError (ascii ''Message must be a string between 1 and 1000 characters'') 5)])"
proof -
  have run: "chat_run (ChatService True) [(1, ascii ''m0'', ascii ''c1'', ascii ''join'', joinG)]
      = joinedChat"
    by (simp add: chat_handleAction_def joinedChat_def)
  have r: "chat_messageRouter joinedChat" "chat_messageRouter (ChatService True)"
    by (simp_all add: joinedChat_def handleJoinChannel_def request_defs ChatService_def Let_def
        ascii_def)
  have j: "joined joinedChat (ascii ''c1'') (ascii ''g'')"
    by (simp add: joined_def joinedChat_def handleJoinChannel_def request_defs ChatService_def
        Let_def set_add_def ascii_def)
  have h: "chatHistory joinedChat (ascii ''g'') = []"
    by (simp add: chatHistory_def joinedChat_def handleJoinChannel_def request_defs
        ChatService_def Let_def ascii_def)
  have q: "req_channel sendHi = Some (ascii ''g'')" "ascii ''g'' \<noteq> []"
    "req_message sendHi = JStr (ascii ''hi'')" "1 \<le> length (ascii ''hi'')"
    "length (ascii ''hi'') \<le> 1000"
    "req_message (sendHi\<lparr>req_message := JNum 7\<rparr>) = JNum 7"
    by (simp_all add: request_defs ascii_def)
  have n: "\<not> joined (ChatService True) (ascii ''c1'') (ascii ''g'')"
    by (simp add: joined_def ChatService_def)
  have e: "handleSendMessage (ChatService True) 5 (ascii ''m1'') (ascii ''c1'') sendHi =
       (ChatService True,
        [SendToClient (ascii ''c1'')
           (ChatError (ascii ''You must join the channel before sending messages'') 5)])"
    by (simp add: handleSendMessage_def request_defs ChatService_def chat_sendError_def
        chat_sendToClient_def ascii_def)
  have t: "handleSendMessage joinedChat 5 (ascii ''m1'') (ascii ''c1'') (sendHi\<lparr>req_message := JNum 7\<rparr>) =
       (joinedChat,
        [SendToClient (ascii ''c1'')
           (ChatError (ascii ''Message must be a string between 1 and 1000 characters'') 5)])"
    using r(1) by (simp add: handleSendMessage_def request_defs chat_sendError_def
        chat_sendToClient_def ascii_def)
  from chat_send_requires_join [OF r(1), of True
      "[(1, ascii ''m0'', ascii ''c1'', ascii ''join'', joinG)]" "ascii ''c1''" "ascii ''g''"
      sendHi 5 "ascii ''m1''" "ascii ''hi''"]
    chat_send_requires_join [OF r(2), of True "[]" "ascii ''c1''" "ascii ''g''"
      sendHi 5 "ascii ''m1''" "ascii ''hi''"]
    chat_send_requires_join [OF r(1), of True "[]" "ascii ''c1''" "ascii ''g''"
      "sendHi\<lparr>req_message := JNum 7\<rparr>" 5 "ascii ''m1''" "ascii ''hi''"]
    run j q h n e t
  show ?thesis by (simp add: hiMessage_def)
qed

subsection \<open>The bounds of the two histories\<close>

lemma handler_history:
  "chatHistory (fst (handleJoinChannel svc now k data)) = chatHistory svc"
  "chatHistory (fst (handleLeaveChannel svc now k data)) = chatHistory svc"
  "chatHistory (fst (handleGetHistory svc now k data)) = chatHistory svc"
  by (auto simp: handleJoinChannel_def handleLeaveChannel_def handleGetHistory_def chatHistory_def
      Let_def fun_eq_iff split: option.splits)

lemma handleSendMessage_state:
  "fst (handleSendMessage svc now mid k data) = svc
   \<or> (\<exists>ch msg. fst (handleSendMessage svc now mid k data) = addToChannelHistory svc ch msg)"
  by (auto simp: handleSendMessage_def Let_def split: option.splits jsval.splits)

lemma addToChannelHistory_bound:
  "length (chatHistory svc c) \<le> 100 \<Longrightarrow>
   length (chatHistory (addToChannelHistory svc ch msg) c) \<le> 100"
  by (auto simp: addToChannelHistory_history chat_maxHistorySize_def)

lemma chat_handleAction_bound:
  assumes "length (chatHistory svc c) \<le> 100"
  shows "length (chatHistory (fst (chat_handleAction svc now mid k action data)) c) \<le> 100"
proof -
  have "length (chatHistory (fst (handleSendMessage svc now mid k data)) c) \<le> 100"
    using handleSendMessage_state [of svc now mid k data] assms addToChannelHistory_bound [OF assms]
    by auto
  then show ?thesis
    using assms by (simp add: chat_handleAction_def handler_history)
qed

lemma chat_run_bound:
  "length (chatHistory svc c) \<le> 100 \<Longrightarrow> length (chatHistory (chat_run svc calls) c) \<le> 100"
proof (induction calls arbitrary: svc)
  case Nil
  then show ?case by simp
next
  case (Cons call calls)
  obtain now mid k action data where call: "call = (now, mid, k, action, data)"
    by (cases call) auto
  show ?case
    unfolding call chat_run.simps
    by (rule Cons.IH) (rule chat_handleAction_bound [OF Cons.prems])
qed

lemma recordReaction_ring:
  "reactionRing (recordReaction svc c r) c' =
     (if c' = c
      then (if length (reactionRing svc c) + 1 > reaction_maxHistorySize
            then tl (reactionRing svc c @ [r]) else reactionRing svc c @ [r])
      else reactionRing svc c')"
  by (simp add: recordReaction_def reactionRing_def Let_def)

lemma reaction_handler_ring:
  "reactionRing (fst (handleSubscribeToReactions svc k data)) = reactionRing svc"
  "reactionRing (fst (handleUnsubscribeFromReactions svc k data)) = reactionRing svc"
  "reactionRing (fst (handleGetAvailableReactions svc k)) = reactionRing svc"
  by (auto simp: handleSubscribeToReactions_def handleUnsubscribeFromReactions_def
      handleGetAvailableReactions_def reactionRing_def Let_def fun_eq_iff split: option.splits)

lemma handleSendReaction_state:
  "fst (handleSendReaction svc now rid k data) = svc
   \<or> (\<exists>ch r. fst (handleSendReaction svc now rid k data) = recordReaction svc ch r)"
  by (auto simp: handleSendReaction_def Let_def split: option.splits js_lookup.splits)

lemma recordReaction_bound:
  "length (reactionRing svc c) \<le> 50 \<Longrightarrow>
   length (reactionRing (recordReaction svc ch r) c) \<le> 50"
  by (auto simp: recordReaction_ring reaction_maxHistorySize_def)

lemma reaction_handleAction_bound:
  assumes "length (reactionRing svc c) \<le> 50"
  shows "length (reactionRing (fst (reaction_handleAction svc now rid k action data)) c) \<le> 50"
proof -
  have "length (reactionRing (fst (handleSendReaction svc now rid k data)) c) \<le> 50"
    using handleSendReaction_state [of svc now rid k data] assms recordReaction_bound [OF assms]
    by auto
  then show ?thesis
    using assms by (simp add: reaction_handleAction_def reaction_handler_ring)
qed

lemma reaction_run_bound:
  "length (reactionRing svc c) \<le> 50 \<Longrightarrow> length (reactionRing (reaction_run svc calls) c) \<le> 50"
proof (induction calls arbitrary: svc)
  case Nil
  then show ?case by simp
next
  case (Cons call calls)
  obtain now rid k action data where call: "call = (now, rid, k, action, data)"
    by (cases call) auto
  show ?case
    unfolding call reaction_run.simps
    by (rule Cons.IH) (rule reaction_handleAction_bound [OF Cons.prems])
qed

text \<open>
  Claim C8. After every sequence of frames handled by the chat service from its initial
  state, no channel's history holds more than 100 entries, and after every sequence of
  frames handled by the reaction service from its initial state, no channel's ring holds
  more than 50; a message added to a history of 100 entries, and a reaction added to a
  ring of 50, takes the place of the oldest entry.
\<close>

theorem histories_bounded:
  "length (chatHistory (chat_run (ChatService router) calls) c) \<le> 100
   \<and> length (reactionRing (reaction_run (ReactionService router') calls') c) \<le> 50
   \<and> (length (chatHistory svc c) = 100 \<longrightarrow>
        chatHistory (addToChannelHistory svc c msg) c = tl (chatHistory svc c) @ [msg])
   \<and> (length (reactionRing rsvc c) = 50 \<longrightarrow>
        reactionRing (recordReaction rsvc c r) c = tl (reactionRing rsvc c) @ [r])"
proof -
  have a: "length (chatHistory (chat_run (ChatService router) calls) c) \<le> 100"
    by (rule chat_run_bound) (simp add: chatHistory_def ChatService_def)
  have b: "length (reactionRing (reaction_run (ReactionService router') calls') c) \<le> 50"
    by (rule reaction_run_bound) (simp add: reactionRing_def ReactionService_def)
  have c: "chatHistory (addToChannelHistory svc c msg) c = tl (chatHistory svc c) @ [msg]"
    if "length (chatHistory svc c) = 100"
    using that
    by (cases "chatHistory svc c")
       (simp_all add: addToChannelHistory_history chat_maxHistorySize_def)
  have d: "reactionRing (recordReaction rsvc c r) c = tl (reactionRing rsvc c) @ [r]"
    if "length (reactionRing rsvc c) = 50"
    using that
    by (cases "reactionRing rsvc c")
       (simp_all add: recordReaction_ring reaction_maxHistorySize_def)
  show ?thesis using a b c d by blast
qed

theorem histories_bounded_witness:
  "chatHistory (chat_run (ChatService True)
       [(1, ascii ''m0'', ascii ''c1'', ascii ''join'', joinG),
        (5, ascii ''m1'', ascii ''c1'', ascii ''send'', sendHi)]) (ascii ''g'') = [hiMessage]
   \<and> reactionRing (reaction_run (ReactionService True)
       [(5, ascii ''r1'', ascii ''c1'', ascii ''send'', sendHeart)]) (ascii ''g'') = [heartReaction]
   \<and> length (chatHistory fullChat (ascii ''g'')) = 100
   \<and> chatHistory (addToChannelHistory fullChat (ascii ''g'') hiMessage) (ascii ''g'')
       = tl (chatHistory fullChat (ascii ''g'')) @ [hiMessage]
   \<and> length (reactionRing fullRing (ascii ''g'')) = 50
   \<and> reactionRing (recordReaction fullRing (ascii ''g'') heartReaction) (ascii ''g'')
       = tl (reactionRing fullRing (ascii ''g'')) @ [heartReaction]"
proof -
  have a: "chatHistory (chat_run (ChatService True)
       [(1, ascii ''m0'', ascii ''c1'', ascii ''join'', joinG),
        (5, ascii ''m1'', ascii ''c1'', ascii ''send'', sendHi)]) (ascii ''g'') = [hiMessage]"
    by (simp add: chat_handleAction_def handleJoinChannel_def handleSendMessage_def
        addToChannelHistory_def chatHistory_def ChatService_def request_defs hiMessage_def
        stamped_def set_add_def chat_maxHistorySize_def Let_def ascii_def)
  have b: "reactionRing (reaction_run (ReactionService True)
       [(5, ascii ''r1'', ascii ''c1'', ascii ''send'', sendHeart)]) (ascii ''g'') = [heartReaction]"
    by (simp add: reaction_handleAction_def handleSendReaction_def recordReaction_def
        reactionRing_def ReactionService_def request_defs heartReaction_def reactionOf_def
        lookupProperty_def availableReactions_def reaction_maxHistorySize_def Let_def ascii_def)
  have c: "length (chatHistory fullChat (ascii ''g'')) = 100"
    by (simp add: chatHistory_def fullChat_def)
  have d: "length (reactionRing fullRing (ascii ''g'')) = 50"
    by (simp add: reactionRing_def fullRing_def)
  from histories_bounded [of True
      "[(1, ascii ''m0'', ascii ''c1'', ascii ''join'', joinG),
        (5, ascii ''m1'', ascii ''c1'', ascii ''send'', sendHi)]" "ascii ''g''" True
      "[(5, ascii ''r1'', ascii ''c1'', ascii ''send'', sendHeart)]" fullChat hiMessage fullRing
      heartReaction] a b c d
  show ?thesis by simp
qed

subsection \<open>Reactions\<close>

lemma handleSendReaction_ok:
  assumes "reaction_messageRouter svc" "req_channel data = Some c" "c \<noteq> []"
    and "req_emoji data = Some e" "map_of availableReactions e = Some (name, effect)"
  shows "handleSendReaction svc now rid C data =
           (recordReaction svc c (reactionOf now rid C c e effect data),
            [SendToChannel (ascii ''reactions:'' @ c)
               (ReactionReceived (reactionOf now rid C c e effect data)) None,
             SendToLocalClient C (ReactionSent rid e c now)])"
proof -
  have "e \<noteq> []"
    using assms(5) by (auto simp: availableReactions_def split: if_splits)
  then show ?thesis
    using assms
    by (simp add: handleSendReaction_def lookupProperty_def reactionOf_def
        reaction_isDistributed_def reaction_sendToClient_def Let_def)
qed

lemma handleSendReaction_rejected:
  assumes "reactionRejected C (snd (handleSendReaction svc now rid C data))"
  shows "req_channel data = None \<or> req_channel data = Some []
       \<or> req_emoji data = None \<or> req_emoji data = Some []
       \<or> (\<exists>e. req_emoji data = Some e \<and> map_of availableReactions e = None)"
  using assms
  by (auto simp: handleSendReaction_def lookupProperty_def reactionRejected_def
      reaction_isDistributed_def reaction_sendToClient_def reaction_sendError_def
      reaction_broadcastToLocalChannel_def Let_def list_ex_iff
      split: option.splits js_lookup.splits if_splits prod.splits)

text \<open>
  Claim C10. With the router in place, a reaction \<open>send\<close> for a channel with an emoji of the
  catalog is recorded as the newest entry of the channel's ring, passed to \<open>sendToChannel\<close>
  for \<open>reactions:<channel>\<close> and acknowledged to the sender with \<open>reaction_sent\<close>, whatever
  the service's record of subscriptions holds, so also for a client that never subscribed;
  and a send is answered with an error only when the channel or the emoji is missing or the
  emoji is not an entry of the catalog.
\<close>

theorem reaction_send_needs_no_subscription:
  assumes "reaction_messageRouter svc"
  shows "(req_channel data = Some c \<and> c \<noteq> [] \<and> req_emoji data = Some e
          \<and> map_of availableReactions e = Some (name, effect) \<longrightarrow>
          handleSendReaction svc now rid C data =
            (recordReaction svc c (reactionOf now rid C c e effect data),
             [SendToChannel (ascii ''reactions:'' @ c)
                (ReactionReceived (reactionOf now rid C c e effect data)) None,
              SendToLocalClient C (ReactionSent rid e c now)])
          \<and> reactionRing (recordReaction svc c (reactionOf now rid C c e effect data)) c \<noteq> []
          \<and> last (reactionRing (recordReaction svc c (reactionOf now rid C c e effect data)) c)
              = reactionOf now rid C c e effect data)
     \<and> (reactionRejected C (snd (handleSendReaction svc now rid C data)) \<longrightarrow>
          req_channel data = None \<or> req_channel data = Some []
          \<or> req_emoji data = None \<or> req_emoji data = Some []
          \<or> (\<exists>e. req_emoji data = Some e \<and> map_of availableReactions e = None))"
proof -
  have l: "reactionRing (recordReaction svc c r) c \<noteq> []
      \<and> last (reactionRing (recordReaction svc c r) c) = r" for r
    by (cases "reactionRing svc c")
       (auto simp: recordReaction_ring reaction_maxHistorySize_def last_tl)
  show ?thesis
    using handleSendReaction_ok [OF assms, of data c e name effect now rid C]
      handleSendReaction_rejected [of C svc now rid data] l
    by blast
qed

theorem reaction_send_needs_no_subscription_witness:
  "reaction_clientChannels (ReactionService True) = []
   \<and> handleSendReaction (ReactionService True) 5 (ascii ''r1'') (ascii ''c1'') sendHeart =
       (recordReaction (ReactionService True) (ascii ''g'') heartReaction,
        [SendToChannel (ascii ''reactions:g'') (ReactionReceived heartReaction) None,
         SendToLocalClient (ascii ''c1'')
           (ReactionSent (ascii ''r1'') [0x2764, 0xFE0F] (ascii ''g'') 5)])
   \<and> reactionRing (recordReaction (ReactionService True) (ascii ''g'') heartReaction) (ascii ''g'')
       = [heartReaction]
   \<and> reactionRejected (ascii ''c1'')
       (snd (handleSendReaction (ReactionService True) 5 (ascii ''r1'') (ascii ''c1'')
          (sendHeart\<lparr>req_emoji := Some (ascii ''x'')\<rparr>)))"
proof -
  have r: "reaction_messageRouter (ReactionService True)"
    and s: "reaction_clientChannels (ReactionService True) = []"
    by (simp_all add: ReactionService_def)
  have q: "req_channel sendHeart = Some (ascii ''g'')" "ascii ''g'' \<noteq> []"
    "req_emoji sendHeart = Some [0x2764, 0xFE0F]"
    "map_of availableReactions [0x2764, 0xFE0F] = Some (ascii ''heart'', ascii ''pulse-red'')"
    by (simp_all add: request_defs availableReactions_def ascii_def)
  have g: "reactionRing (recordReaction (ReactionService True) (ascii ''g'') heartReaction) (ascii ''g'')
       = [heartReaction]"
    by (simp add: recordReaction_def reactionRing_def ReactionService_def
        reaction_maxHistorySize_def Let_def)
  have x: "reactionRejected (ascii ''c1'')
       (snd (handleSendReaction (ReactionService True) 5 (ascii ''r1'') (ascii ''c1'')
          (sendHeart\<lparr>req_emoji := Some (ascii ''x'')\<rparr>)))"
    by (simp add: reactionRejected_def handleSendReaction_def lookupProperty_def
        availableReactions_def objectPrototypeKeys_def reaction_sendError_def
        reaction_sendToClient_def ReactionService_def request_defs ascii_def)
  from reaction_send_needs_no_subscription [OF r, of sendHeart "ascii ''g''" "[0x2764, 0xFE0F]"
      "ascii ''heart''" "ascii ''pulse-red''" 5 "ascii ''r1''" "ascii ''c1''"]
    reaction_send_needs_no_subscription [OF r, of "sendHeart\<lparr>req_emoji := Some (ascii ''x'')\<rparr>"
      "ascii ''g''" "[0x2764, 0xFE0F]" "ascii ''heart''" "ascii ''pulse-red''" 5 "ascii ''r1''"
      "ascii ''c1''"] q s g x
  show ?thesis by (simp add: heartReaction_def ascii_def)
qed


subsection \<open>The throttle of cursor updates\<close>




















subsection \<open>The sweeper of the multi-mode cursor service\<close>

lemmas sweep_defs = movedCursor_def firstSweep_def secondSweep_def mm_update_def
  mm_handleUpdateCursor_def lookupProperty_def supportedModes_def validatePositionForMode_def
  shouldUpdateCursor_def storeCursorData_def storeLocalCursorData_def cleanupStaleData_def
  removeStaleClientCursor_def broadcastCursorRemoval_def cursor_isDistributed_def
  getLocalChannelCursors_def CursorService_def throttleInterval_def cursorTTL_def
  cleanupInterval_def

text \<open>
  Claim C2. The code departs from it. Client \<open>c1\<close> moves its cursor in channel \<open>a\<close> at
  instant 1000 and in channel \<open>b\<close> at instant 2000. The sweep at 40000 finds the client's
  entry stale, removes it from \<open>clientCursors\<close> and from channel \<open>b\<close>, and publishes one
  \<open>remove\<close> for channel \<open>b\<close>. The entry of \<open>c1\<close> in channel \<open>a\<close>, stamped 1000, is not
  looked at: it is still there after the sweep at 50000, 49 seconds old, and no \<open>remove\<close>
  is published for it. Every sweep after the first, at whatever instant \<open>t\<close>, changes
  nothing and publishes nothing.
\<close>

theorem sweeper_keeps_entry_of_earlier_channel:
  "map cursor_timestamp (getLocalChannelCursors movedCursor (ascii ''a'')) = [1000]
   \<and> map cursor_timestamp (getLocalChannelCursors movedCursor (ascii ''b'')) = [2000]
   \<and> snd firstSweep =
       [SendToChannel (ascii ''cursor:b'') (CursorRemove (ascii ''b'') (ascii ''c1'') 40000) None]
   \<and> clientCursors (fst firstSweep) = []
   \<and> snd secondSweep = []
   \<and> map cursor_timestamp (getLocalChannelCursors (fst secondSweep) (ascii ''a'')) = [1000]
   \<and> 50000 - 1000 > cursorTTL + cleanupInterval
   \<and> cleanupStaleData (fst firstSweep) t = (fst firstSweep, [])"
  by (simp add: sweep_defs request_defs Let_def ascii_def)

end
